theory Spec2Isabelle
  imports Main "HOL-Library.Word"
begin

unbundle bit_operations_syntax

section \<open>The marching-cubes triangle table\<close>

text \<open>
  \<^verbatim>\<open>int TRIANGLE_TABLE[256][16]\<close> of the marching-cubes source, row for row in the
  order of the initialiser. A row lists the cube-edge indices of up to five triangles
  and is padded with \<open>-1\<close>. The comment after a row is the source's: the row's index
  here, then the corner sign pattern the source writes beside the row (bit \<open>b\<close> for
  corner \<open>b\<close>) and the corners inside. The C type \<^verbatim>\<open>int\<close> is modelled as \<^typ>\<open>int\<close>: the
  entries are the literals \<open>-1 .. 11\<close> and no arithmetic is done on them.
\<close>

definition TRIANGLE_TABLE :: "int list list" where
  "TRIANGLE_TABLE = [
    [-1, -1, -1, -1, -1, -1, -1, -1, -1, -1, -1, -1, -1, -1, -1, -1],  \<comment> \<open>0: 0000 0000 (no intersects)\<close>
    [0, 4, 3, -1, -1, -1, -1, -1, -1, -1, -1, -1, -1, -1, -1, -1],     \<comment> \<open>1: 0000 0001 0 (vertex 0 only)\<close>
    [0, 1, 5, -1, -1, -1, -1, -1, -1, -1, -1, -1, -1, -1, -1, -1],     \<comment> \<open>2: 0000 0010 1 (vertex 1 only)\<close>
    [1, 2, 6, -1, -1, -1, -1, -1, -1, -1, -1, -1, -1, -1, -1, -1],     \<comment> \<open>3: 0000 0100 2 (vertex 2 only)\<close>
    [2, 3, 7, -1, -1, -1, -1, -1, -1, -1, -1, -1, -1, -1, -1, -1],     \<comment> \<open>4: 0000 1000 3 (vertex 3 only)\<close>
    [4, 8, 11, -1, -1, -1, -1, -1, -1, -1, -1, -1, -1, -1, -1, -1],    \<comment> \<open>5: 0001 0000 4 (vertex 4 only)\<close>
    [5, 9, 8, -1, -1, -1, -1, -1, -1, -1, -1, -1, -1, -1, -1, -1],     \<comment> \<open>6: 0010 0000 5 (vertex 5 only)\<close>
    [6, 10, 9, -1, -1, -1, -1, -1, -1, -1, -1, -1, -1, -1, -1, -1],    \<comment> \<open>7: 0100 0000 6 (vertex 6 only)\<close>
    [7, 11, 10, -1, -1, -1, -1, -1, -1, -1, -1, -1, -1, -1, -1, -1],   \<comment> \<open>8: 1000 0000 7 (vertex 7 only)\<close>
    [1, 5, 3, 3, 5, 4, -1, -1, -1, -1, -1, -1, -1, -1, -1, -1],        \<comment> \<open>9: 0000 0011 0, 1 (edge 0)\<close>
    [0, 2, 5, 5, 2, 6, -1, -1, -1, -1, -1, -1, -1, -1, -1, -1],        \<comment> \<open>10: 0000 0110 1, 2 (edge 1)\<close>
    [1, 3, 6, 6, 3, 7, -1, -1, -1, -1, -1, -1, -1, -1, -1, -1],        \<comment> \<open>11: 0000 1100 2, 3 (edge 2)\<close>
    [0, 4, 2, 2, 4, 7, -1, -1, -1, -1, -1, -1, -1, -1, -1, -1],        \<comment> \<open>12: 0000 1001 0, 3 (edge 3)\<close>
    [0, 8, 3, 3, 8, 11, -1, -1, -1, -1, -1, -1, -1, -1, -1, -1],       \<comment> \<open>13: 0001 0001 0, 4 (edge 4)\<close>
    [0, 1, 8, 8, 1, 9, -1, -1, -1, -1, -1, -1, -1, -1, -1, -1],        \<comment> \<open>14: 0010 0010 1, 5 (edge 5)\<close>
    [1, 2, 9, 9, 2, 10, -1, -1, -1, -1, -1, -1, -1, -1, -1, -1],       \<comment> \<open>15: 0100 0100 2, 6 (edge 6)\<close>
    [2, 3, 10, 10, 3, 11, -1, -1, -1, -1, -1, -1, -1, -1, -1, -1],     \<comment> \<open>16: 1000 1000 3, 7 (edge 7)\<close>
    [4, 5, 11, 11, 5, 9, -1, -1, -1, -1, -1, -1, -1, -1, -1, -1],      \<comment> \<open>17: 0011 0000 4, 5 (edge 8)\<close>
    [5, 6, 8, 8, 6, 10, -1, -1, -1, -1, -1, -1, -1, -1, -1, -1],       \<comment> \<open>18: 0110 0000 5, 6 (edge 9)\<close>
    [6, 7, 9, 9, 7, 11, -1, -1, -1, -1, -1, -1, -1, -1, -1, -1],       \<comment> \<open>19: 1100 0000 6, 7 (edge 10)\<close>
    [4, 8, 7, 7, 8, 10, -1, -1, -1, -1, -1, -1, -1, -1, -1, -1],       \<comment> \<open>20: 1001 0000 4, 7 (edge 11)\<close>
    [0, 4, 3, 1, 2, 6, -1, -1, -1, -1, -1, -1, -1, -1, -1, -1],        \<comment> \<open>21: 0000 0101 0, 2 (2 tri)\<close>
    [0, 4, 3, 5, 9, 8, -1, -1, -1, -1, -1, -1, -1, -1, -1, -1],        \<comment> \<open>22: 0010 0001 0, 5 (2 tri)\<close>
    [0, 4, 3, 7, 11, 10, -1, -1, -1, -1, -1, -1, -1, -1, -1, -1],      \<comment> \<open>23: 1000 0001 0, 7 (2 tri)\<close>
    [0, 1, 5, 2, 3, 7, -1, -1, -1, -1, -1, -1, -1, -1, -1, -1],        \<comment> \<open>24: 0000 1010 1, 3 (2 tri)\<close>
    [0, 1, 5, 4, 8, 11, -1, -1, -1, -1, -1, -1, -1, -1, -1, -1],       \<comment> \<open>25: 0001 0010 1, 4 (2 tri)\<close>
    [0, 1, 5, 6, 10, 9, -1, -1, -1, -1, -1, -1, -1, -1, -1, -1],       \<comment> \<open>26: 0100 0010 1, 6 (2 tri)\<close>
    [1, 2, 6, 5, 9, 8, -1, -1, -1, -1, -1, -1, -1, -1, -1, -1],        \<comment> \<open>27: 0010 0100 2, 5 (2 tri)\<close>
    [1, 2, 6, 7, 11, 10, -1, -1, -1, -1, -1, -1, -1, -1, -1, -1],      \<comment> \<open>28: 1000 0100 2, 7 (2 tri)\<close>
    [2, 3, 7, 4, 8, 11, -1, -1, -1, -1, -1, -1, -1, -1, -1, -1],       \<comment> \<open>29: 0001 1000 3, 4 (2 tri)\<close>
    [2, 3, 7, 6, 10, 9, -1, -1, -1, -1, -1, -1, -1, -1, -1, -1],       \<comment> \<open>30: 0100 1000 3, 6 (2 tri)\<close>
    [4, 8, 11, 6, 10, 9, -1, -1, -1, -1, -1, -1, -1, -1, -1, -1],      \<comment> \<open>31: 0101 0000 4, 6 (2 tri)\<close>
    [5, 9, 8, 7, 11, 10, -1, -1, -1, -1, -1, -1, -1, -1, -1, -1],      \<comment> \<open>32: 1010 0000 5, 7 (2 tri)\<close>
    [0, 4, 3, 6, 10, 9, -1, -1, -1, -1, -1, -1, -1, -1, -1, -1],       \<comment> \<open>33: 0100 0001 0, 6 (2 diag tris)\<close>
    [0, 1, 5, 7, 11, 10, -1, -1, -1, -1, -1, -1, -1, -1, -1, -1],      \<comment> \<open>34: 1000 0010 1, 7 (2 diag tris)\<close>
    [2, 3, 7, 5, 9, 8, -1, -1, -1, -1, -1, -1, -1, -1, -1, -1],        \<comment> \<open>35: 0010 1000 3, 5 (2 diag tris)\<close>
    [1, 2, 6, 4, 8, 11, -1, -1, -1, -1, -1, -1, -1, -1, -1, -1],       \<comment> \<open>36: 0001 0100 2, 4 (2 diag tris)\<close>
    [4, 6, 5, 4, 3, 6, 6, 3, 2, -1, -1, -1, -1, -1, -1, -1],           \<comment> \<open>37: 0000 0111 0,1,2 (3 on a face)\<close>
    [5, 7, 6, 5, 0, 7, 7, 0, 3, -1, -1, -1, -1, -1, -1, -1],           \<comment> \<open>38: 0000 1110 1,2,3 (3 on a face)\<close>
    [6, 4, 7, 6, 1, 4, 4, 1, 0, -1, -1, -1, -1, -1, -1, -1],           \<comment> \<open>39: 0000 1101 2,3,0 (3 on a face)\<close>
    [7, 5, 4, 7, 2, 5, 5, 2, 1, -1, -1, -1, -1, -1, -1, -1],           \<comment> \<open>40: 0000 1011 3,0,1 (3 on a face)\<close>
    [0, 10, 8, 0, 1, 10, 10, 1, 6, -1, -1, -1, -1, -1, -1, -1],        \<comment> \<open>41: 0110 0010 1,5,6 (3 on a face)\<close>
    [8, 2, 10, 8, 5, 2, 2, 5, 1, -1, -1, -1, -1, -1, -1, -1],          \<comment> \<open>42: 0110 0100 5,6,2 (3 on a face)\<close>
    [10, 0, 2, 10, 9, 0, 0, 9, 5, -1, -1, -1, -1, -1, -1, -1],         \<comment> \<open>43: 0100 0110 6,2,1 (3 on a face)\<close>
    [2, 8, 0, 2, 6, 8, 8, 6, 9, -1, -1, -1, -1, -1, -1, -1],           \<comment> \<open>44: 0010 0110 2,1,5 (3 on a face)\<close>
    [5, 7, 4, 5, 9, 7, 7, 9, 10, -1, -1, -1, -1, -1, -1, -1],          \<comment> \<open>45: 1011 0000 5,4,7 (3 on a face)\<close>
    [4, 6, 7, 4, 8, 6, 6, 8, 9, -1, -1, -1, -1, -1, -1, -1],           \<comment> \<open>46: 1101 0000 4,7,6 (3 on a face)\<close>
    [7, 5, 6, 7, 11, 5, 5, 11, 8, -1, -1, -1, -1, -1, -1, -1],         \<comment> \<open>47: 1110 0000 7,6,5 (3 on a face)\<close>
    [6, 4, 5, 6, 10, 4, 4, 10, 11, -1, -1, -1, -1, -1, -1, -1],        \<comment> \<open>48: 0111 0000 6,5,4 (3 on a face)\<close>
    [8, 2, 0, 8, 11, 2, 2, 11, 7, -1, -1, -1, -1, -1, -1, -1],         \<comment> \<open>49: 0001 1001 4,0,3 (3 on a face)\<close>
    [0, 10, 2, 0, 4, 10, 10, 4, 11, -1, -1, -1, -1, -1, -1, -1],       \<comment> \<open>50: 1000 1001 0,3,7 (3 on a face)\<close>
    [2, 8, 10, 2, 3, 8, 8, 3, 4, -1, -1, -1, -1, -1, -1, -1],          \<comment> \<open>51: 1001 1000 3,7,4 (3 on a face)\<close>
    [10, 0, 8, 10, 7, 0, 0, 7, 3, -1, -1, -1, -1, -1, -1, -1],         \<comment> \<open>52: 1001 0001 7,4,0 (3 on a face)\<close>
    [1, 11, 9, 1, 2, 11, 11, 2, 7, -1, -1, -1, -1, -1, -1, -1],        \<comment> \<open>53: 1100 0100 2,6,7 (3 on a face)\<close>
    [9, 3, 11, 9, 6, 3, 3, 6, 2, -1, -1, -1, -1, -1, -1, -1],          \<comment> \<open>54: 1100 1000 6,7,3 (3 on a face)\<close>
    [11, 1, 3, 11, 10, 1, 1, 10, 6, -1, -1, -1, -1, -1, -1, -1],       \<comment> \<open>55: 1000 1100 7,3,2 (3 on a face)\<close>
    [3, 9, 1, 3, 7, 9, 9, 7, 10, -1, -1, -1, -1, -1, -1, -1],          \<comment> \<open>56: 0100 1100 3,2,6 (3 on a face)\<close>
    [3, 9, 11, 3, 0, 9, 9, 0, 5, -1, -1, -1, -1, -1, -1, -1],          \<comment> \<open>57: 0011 0001 0,4,5 (3 on a face)\<close>
    [11, 1, 9, 11, 4, 1, 1, 4, 0, -1, -1, -1, -1, -1, -1, -1],         \<comment> \<open>58: 0011 0010 4,5,1 (3 on a face)\<close>
    [9, 3, 1, 9, 8, 3, 3, 8, 4, -1, -1, -1, -1, -1, -1, -1],           \<comment> \<open>59: 0010 0011 5,1,0 (3 on a face)\<close>
    [1, 11, 3, 1, 5, 11, 11, 5, 8, -1, -1, -1, -1, -1, -1, -1],        \<comment> \<open>60: 0001 0011 1,0,4 (3 on a face)\<close>
    [1, 5, 3, 3, 5, 4, 6, 10, 9, -1, -1, -1, -1, -1, -1, -1],          \<comment> \<open>61: 0100 0011 0, 1, 6 (edge 0 + 6)\<close>
    [1, 5, 3, 3, 5, 4, 7, 11, 10, -1, -1, -1, -1, -1, -1, -1],         \<comment> \<open>62: 1000 0011 0, 1, 7 (edge 0 + 7)\<close>
    [0, 8, 3, 3, 8, 11, 1, 2, 6, -1, -1, -1, -1, -1, -1, -1],          \<comment> \<open>63: 0001 0101 0, 2, 4 (edge 4 + 2)\<close>
    [1, 2, 9, 9, 2, 10, 0, 4, 3, -1, -1, -1, -1, -1, -1, -1],          \<comment> \<open>64: 0100 0101 0, 2, 6 (edge 6 + 0)\<close>
    [0, 4, 2, 2, 4, 7, 5, 9, 8, -1, -1, -1, -1, -1, -1, -1],           \<comment> \<open>65: 0010 1001 0, 3, 5 (edge 3 + 5)\<close>
    [0, 4, 2, 2, 4, 7, 6, 10, 9, -1, -1, -1, -1, -1, -1, -1],          \<comment> \<open>66: 0100 1001 0, 3, 6 (edge 3 + 6)\<close>
    [0, 8, 3, 3, 8, 11, 6, 10, 9, -1, -1, -1, -1, -1, -1, -1],         \<comment> \<open>67: 0101 0001 0, 4, 6 (edge 4 + 6)\<close>
    [5, 6, 8, 8, 6, 10, 0, 4, 3, -1, -1, -1, -1, -1, -1, -1],          \<comment> \<open>68: 0110 0001 0, 5, 6 (edge 9 + 0)\<close>
    [6, 7, 9, 9, 7, 11, 0, 4, 3, -1, -1, -1, -1, -1, -1, -1],          \<comment> \<open>69: 1100 0001 0, 6, 7 (edge 10 + 0)\<close>
    [0, 2, 5, 5, 2, 6, 4, 8, 11, -1, -1, -1, -1, -1, -1, -1],          \<comment> \<open>70: 0001 0110 1, 2, 4 (edge 1 + 4)\<close>
    [0, 2, 5, 5, 2, 6, 7, 11, 10, -1, -1, -1, -1, -1, -1, -1],         \<comment> \<open>71: 1000 0110 1, 2, 7 (edge 1 + 7)\<close>
    [2, 3, 10, 10, 3, 11, 0, 1, 5, -1, -1, -1, -1, -1, -1, -1],        \<comment> \<open>72: 1000 1010 1, 3, 7 (edge 7 + 1)\<close>
    [4, 8, 7, 7, 8, 10, 0, 1, 5, -1, -1, -1, -1, -1, -1, -1],          \<comment> \<open>73: 1001 0010 1, 4, 7 (edge 11 + 1)\<close>
    [0, 1, 8, 8, 1, 9, 2, 3, 7, -1, -1, -1, -1, -1, -1, -1],           \<comment> \<open>74: 0010 1010 1, 5, 3 (edge 5 + 3)\<close>
    [0, 1, 8, 8, 1, 9, 5, 9, 8, -1, -1, -1, -1, -1, -1, -1],           \<comment> \<open>75: 1010 0010 1, 5, 7 (edge 5 + 7)\<close>
    [6, 7, 9, 9, 7, 11, 0, 1, 5, -1, -1, -1, -1, -1, -1, -1],          \<comment> \<open>76: 1100 0010 1, 6, 7 (edge 10 + 1)\<close>
    [1, 3, 6, 6, 3, 7, 4, 8, 11, -1, -1, -1, -1, -1, -1, -1],          \<comment> \<open>77: 0001 1100 2, 3, 4 (edge 2 + 4)\<close>
    [1, 3, 6, 6, 3, 7, 5, 9, 8, -1, -1, -1, -1, -1, -1, -1],           \<comment> \<open>78: 0010 1100 2, 3, 5 (edge 2 + 5)\<close>
    [1, 2, 9, 9, 2, 10, 4, 8, 11, -1, -1, -1, -1, -1, -1, -1],         \<comment> \<open>79: 0101 0100 2, 4, 6 (edge 6 + 4)\<close>
    [4, 5, 9, 4, 9, 11, 1, 2, 6, -1, -1, -1, -1, -1, -1, -1],          \<comment> \<open>80: 0011 0100 2, 4, 5 (edge 8 + 2)\<close>
    [4, 8, 7, 7, 8, 10, 1, 2, 6, -1, -1, -1, -1, -1, -1, -1],          \<comment> \<open>81: 1001 0100 2, 4, 7 (edge 11 + 2)\<close>
    [4, 5, 9, 4, 9, 11, 2, 3, 7, -1, -1, -1, -1, -1, -1, -1],          \<comment> \<open>82: 0011 1000 3, 4, 5 (edge 8 + 3)\<close>
    [5, 6, 8, 8, 6, 10, 2, 3, 7, -1, -1, -1, -1, -1, -1, -1],          \<comment> \<open>83: 0110 1000 3, 5, 6 (edge 9 + 3)\<close>
    [2, 3, 10, 10, 3, 11, 5, 9, 8, -1, -1, -1, -1, -1, -1, -1],        \<comment> \<open>84: 1010 1000 3, 5, 7 (edge 7 + 5)\<close>
    [0, 4, 3, 1, 2, 6, 5, 9, 8, -1, -1, -1, -1, -1, -1, -1],           \<comment> \<open>85: 0010 0101 0, 2, 5 (3 tri)\<close>
    [0, 1, 5, 6, 10, 9, 4, 8, 11, -1, -1, -1, -1, -1, -1, -1],         \<comment> \<open>86: 0101 0010 1, 6, 4 (3 tri)\<close>
    [5, 9, 8, 7, 11, 10, 0, 4, 3, -1, -1, -1, -1, -1, -1, -1],         \<comment> \<open>87: 1010 0001 5, 7, 0 (3 tri)\<close>
    [4, 8, 11, 2, 3, 7, 0, 1, 5, -1, -1, -1, -1, -1, -1, -1],          \<comment> \<open>88: 0001 1010 4, 3, 1 (3 tri)\<close>
    [0, 4, 3, 1, 2, 6, 7, 11, 10, -1, -1, -1, -1, -1, -1, -1],         \<comment> \<open>89: 1000 0101 0, 2, 7 (3 tri)\<close>
    [0, 1, 5, 6, 10, 9, 2, 3, 7, -1, -1, -1, -1, -1, -1, -1],          \<comment> \<open>90: 0100 1010 1, 6, 3 (3 tri)\<close>
    [5, 9, 8, 7, 11, 10, 1, 2, 6, -1, -1, -1, -1, -1, -1, -1],         \<comment> \<open>91: 1010 0100 5, 7, 2 (3 tri)\<close>
    [4, 8, 11, 2, 3, 7, 6, 10, 9, -1, -1, -1, -1, -1, -1, -1],         \<comment> \<open>92: 0101 1000 4, 3, 6 (3 tri)\<close>
    [4, 7, 5, 5, 7, 6, -1, -1, -1, -1, -1, -1, -1, -1, -1, -1],        \<comment> \<open>93: 0000 1111 0,1,2,3 (bisect)\<close>
    [0, 8, 2, 2, 8, 10, -1, -1, -1, -1, -1, -1, -1, -1, -1, -1],       \<comment> \<open>94: 1001 1001 0,3,4,7 (bisect)\<close>
    [1, 9, 3, 3, 9, 11, -1, -1, -1, -1, -1, -1, -1, -1, -1, -1],       \<comment> \<open>95: 0011 0011 0,1,4,5 (bisect)\<close>
    [1, 7, 2, 1, 5, 7, 7, 5, 11, 5, 11, 8, -1, -1, -1, -1],            \<comment> \<open>96: 0001 1011 0,1,3,4 (hexagon)\<close>
    [9, 2, 6, 9, 8, 2, 2, 8, 3, 8, 3, 4, -1, -1, -1, -1],              \<comment> \<open>97: 0010 0111 0,1,2,5 (hexagon)\<close>
    [3, 10, 7, 3, 0, 10, 10, 0, 9, 0, 9, 5, -1, -1, -1, -1],           \<comment> \<open>98: 1011 0001 0,4,5,7 (hexagon)\<close>
    [11, 0, 4, 11, 10, 0, 0, 10, 1, 10, 1, 6, -1, -1, -1, -1],         \<comment> \<open>99: 1000 1101 0,2,3,7 (hexagon)\<close>
    [1, 5, 3, 3, 5, 4, 6, 7, 9, 9, 7, 11, -1, -1, -1, -1],             \<comment> \<open>100: 1100 0011 0,1,6,7 (edges 0, 10)\<close>
    [0, 4, 2, 2, 4, 7, 5, 6, 8, 8, 6, 10, -1, -1, -1, -1],             \<comment> \<open>101: 0110 1001 0,3,5,6 (edges 3, 9)\<close>
    [0, 8, 3, 3, 8, 11, 1, 2, 9, 9, 2, 10, -1, -1, -1, -1],            \<comment> \<open>102: 0101 0101 0,2,4,6 (edges 4, 6)\<close>
    [11, 9, 4, 4, 9, 2, 2, 4, 0, 9, 6, 2, -1, -1, -1, -1],             \<comment> \<open>103: 0011 0110 1,2,4,5 (perp edges l : 1,8)\<close>
    [9, 1, 8, 8, 1, 7, 7, 8, 4, 1, 2, 7, -1, -1, -1, -1],              \<comment> \<open>104: 0010 1011 0,1,5,3 (perp edges l : 3,5)\<close>
    [8, 0, 11, 11, 0, 6, 6, 11, 7, 0, 1, 6, -1, -1, -1, -1],           \<comment> \<open>105: 0001 1101 0,2,3,4 (perp edges l : 2,4)\<close>
    [11, 3, 10, 10, 3, 5, 5, 10, 6, 3, 0, 5, -1, -1, -1, -1],          \<comment> \<open>106: 1000 1110 1,2,3,7 (perp edges l : 1,7)\<close>
    [10, 2, 9, 9, 2, 4, 4, 9, 5, 2, 3, 4, -1, -1, -1, -1],             \<comment> \<open>107: 0100 0111 0,1,2,6 (perp edges l : 0,6)\<close>
    [1, 3, 5, 5, 3, 10, 10, 5, 8, 3, 7, 10, -1, -1, -1, -1],           \<comment> \<open>108: 1001 0011 0,1,4,7 (perp edges l : 0,11)\<close>
    [0, 2, 4, 4, 2, 9, 9, 4, 11, 2, 6, 9, -1, -1, -1, -1],             \<comment> \<open>109: 1100 1001 0,3,6,7 (perp edges l : 3,10)\<close>
    [3, 1, 7, 7, 1, 8, 8, 7, 10, 1, 5, 8, -1, -1, -1, -1],             \<comment> \<open>110: 0110 1100 2,3,5,6 (perp edges l : 2,9)\<close>
    [3, 11, 0, 0, 11, 6, 6, 0, 5, 11, 10, 6, -1, -1, -1, -1],          \<comment> \<open>111: 0111 0001 0,4,5,6 (perp edges l : 4,9)\<close>
    [2, 10, 3, 3, 10, 5, 5, 3, 4, 10, 9, 5, -1, -1, -1, -1],           \<comment> \<open>112: 1011 1000 3,4,5,7 (perp edges l : 7,8)\<close>
    [1, 9, 2, 2, 9, 4, 4, 2, 7, 9, 8, 4, -1, -1, -1, -1],              \<comment> \<open>113: 1101 0100 2,4,6,7 (perp edges l : 6,11)\<close>
    [0, 8, 1, 1, 8, 7, 7, 1, 6, 8, 11, 7, -1, -1, -1, -1],             \<comment> \<open>114: 1110 0010 1,5,6,7 (perp edges l : 5,10)\<close>
    [4, 5, 6, 4, 6, 3, 6, 3, 2, 7, 11, 10, -1, -1, -1, -1],            \<comment> \<open>115: 1000 0111 0,1,2,7 (3 on a face + 1)\<close>
    [5, 6, 7, 5, 7, 0, 7, 0, 3, 4, 8, 11, -1, -1, -1, -1],             \<comment> \<open>116: 0001 1110 1,2,3,4 (3 on a face + 1)\<close>
    [6, 7, 4, 6, 4, 1, 4, 1, 0, 5, 9, 8, -1, -1, -1, -1],              \<comment> \<open>117: 0010 1101 2,3,0,5 (3 on a face + 1)\<close>
    [7, 4, 5, 7, 5, 2, 5, 2, 1, 6, 10, 9, -1, -1, -1, -1],             \<comment> \<open>118: 0100 1011 3,0,1,6 (3 on a face + 1)\<close>
    [0, 8, 10, 0, 10, 1, 10, 1, 6, 2, 3, 7, -1, -1, -1, -1],           \<comment> \<open>119: 0110 1010 1,5,6,3 (3 on a face + 1)\<close>
    [8, 10, 2, 8, 2, 5, 2, 5, 1, 0, 3, 4, -1, -1, -1, -1],             \<comment> \<open>120: 0110 0101 5,6,2,0 (3 on a face + 1)\<close>
    [10, 2, 0, 10, 0, 9, 0, 9, 5, 4, 8, 11, -1, -1, -1, -1],           \<comment> \<open>121: 0101 0110 6,2,1,4 (3 on a face + 1)\<close>
    [2, 0, 8, 2, 8, 6, 8, 6, 9, 7, 11, 10, -1, -1, -1, -1],            \<comment> \<open>122: 1010 0110 2,1,5,7 (3 on a face + 1)\<close>
    [5, 4, 7, 5, 7, 9, 7, 9, 10, 1, 2, 6, -1, -1, -1, -1],             \<comment> \<open>123: 1011 0100 5,4,7,2 (3 on a face + 1)\<close>
    [4, 7, 6, 4, 6, 8, 6, 8, 9, 0, 5, 1, -1, -1, -1, -1],              \<comment> \<open>124: 1101 0010 4,7,6,1 (3 on a face + 1)\<close>
    [7, 6, 5, 7, 5, 11, 5, 11, 8, 0, 4, 3, -1, -1, -1, -1],            \<comment> \<open>125: 1110 0001 7,6,5,0 (3 on a face + 1)\<close>
    [6, 5, 4, 6, 4, 10, 4, 10, 11, 2, 3, 7, -1, -1, -1, -1],           \<comment> \<open>126: 0111 1000 6,5,4,3 (3 on a face + 1)\<close>
    [8, 0, 2, 8, 2, 11, 2, 11, 7, 6, 10, 9, -1, -1, -1, -1],           \<comment> \<open>127: 0101 1001 4,0,3,6 (3 on a face + 1)\<close>
    [0, 2, 10, 0, 10, 4, 10, 4, 11, 5, 9, 8, -1, -1, -1, -1],          \<comment> \<open>128: 1010 1001 0,3,7,5 (3 on a face + 1)\<close>
    [2, 10, 8, 2, 8, 3, 8, 3, 4, 0, 1, 5, -1, -1, -1, -1],             \<comment> \<open>129: 1001 1010 3,7,4,1 (3 on a face + 1)\<close>
    [10, 8, 0, 10, 0, 7, 0, 7, 3, 1, 2, 6, -1, -1, -1, -1],            \<comment> \<open>130: 1001 0101 7,4,0,2 (3 on a face + 1)\<close>
    [1, 9, 11, 1, 11, 2, 11, 2, 7, 0, 4, 3, -1, -1, -1, -1],           \<comment> \<open>131: 1100 0101 2,6,7,0 (3 on a face + 1)\<close>
    [9, 11, 3, 9, 3, 6, 3, 6, 2, 0, 1, 5, -1, -1, -1, -1],             \<comment> \<open>132: 1100 1010 6,7,3,1 (3 on a face + 1)\<close>
    [11, 3, 1, 11, 1, 10, 1, 10, 6, 5, 9, 8, -1, -1, -1, -1],          \<comment> \<open>133: 1010 1100 7,3,2,5 (3 on a face + 1)\<close>
    [3, 1, 9, 3, 9, 7, 9, 7, 10, 4, 8, 11, -1, -1, -1, -1],            \<comment> \<open>134: 0101 1100 3,2,6,4 (3 on a face + 1)\<close>
    [3, 11, 9, 3, 9, 0, 9, 0, 5, 1, 2, 6, -1, -1, -1, -1],             \<comment> \<open>135: 0011 0101 0,4,5,2 (3 on a face + 1)\<close>
    [11, 9, 1, 11, 1, 4, 1, 4, 0, 2, 3, 7, -1, -1, -1, -1],            \<comment> \<open>136: 0011 1010 4,5,1,3 (3 on a face + 1)\<close>
    [9, 1, 3, 9, 3, 8, 3, 8, 4, 7, 11, 10, -1, -1, -1, -1],            \<comment> \<open>137: 1010 0011 5,1,0,7 (3 on a face + 1)\<close>
    [1, 3, 11, 1, 11, 5, 11, 5, 8, 6, 10, 9, -1, -1, -1, -1],          \<comment> \<open>138: 0101 0011 1,0,4,6 (3 on a face + 1)\<close>
    [9, 4, 3, 5, 9, 8, 1, 2, 6, 7, 11, 10, -1, -1, -1, -1],            \<comment> \<open>139: 1010 0101 0,5,2,7 (diagonal opposite corners)\<close>
    [0, 1, 5, 4, 8, 11, 2, 3, 7, 6, 10, 9, -1, -1, -1, -1],            \<comment> \<open>140: 0101 1010 1,4,3,6 (diagonal opposite corners)\<close>
    [1, 9, 0, 0, 9, 7, 7, 0, 4, 9, 10, 7, -1, -1, -1, -1],             \<comment> \<open>141: 1011 0010 1,4,5,7 (perp edges r : 5,11)\<close>
    [0, 8, 3, 3, 8, 6, 6, 3, 7, 8, 9, 6, -1, -1, -1, -1],              \<comment> \<open>142: 1101 0001 0,4,6,7 (perp edges r : 4,10)\<close>
    [3, 11, 2, 2, 11, 5, 5, 2, 6, 11, 8, 5, -1, -1, -1, -1],           \<comment> \<open>143: 1110 1000 3,5,6,7 (perp edges r : 7,9)\<close>
    [2, 10, 1, 1, 10, 4, 4, 1, 5, 10, 7, 4, -1, -1, -1, -1],           \<comment> \<open>144: 0111 0100 2,4,5,6 (perp edges r : 6,8)\<close>
    [9, 11, 5, 5, 11, 2, 2, 5, 0, 11, 7, 2, -1, -1, -1, -1],           \<comment> \<open>145: 0011 1001 0,3,4,5 (perp edges r : 3,8)\<close>
    [8, 10, 4, 4, 10, 1, 1, 4, 3, 10, 6, 1, -1, -1, -1, -1],           \<comment> \<open>146: 1001 1100 2,3,4,7 (perp edges r : 2,8)\<close>
    [11, 9, 7, 7, 9, 0, 0, 7, 2, 9, 5, 0, -1, -1, -1, -1],             \<comment> \<open>147: 1100 0110 1,2,6,7 (perp edges r : 1,10)\<close>
    [11, 3, 8, 8, 3, 6, 6, 8, 5, 3, 2, 6, -1, -1, -1, -1],             \<comment> \<open>148: 0001 0111 0,1,2,4 (perp edges r : 1,4)\<close>
    [10, 2, 11, 11, 2, 5, 5, 11, 4, 2, 1, 5, -1, -1, -1, -1],          \<comment> \<open>149: 1000 1011 0,1,3,7 (perp edges r : 0,7)\<close>
    [9, 1, 10, 10, 1, 4, 4, 10, 7, 1, 0, 4, -1, -1, -1, -1],           \<comment> \<open>150: 0100 1101 0,2,3,6 (perp edges r : 3,6)\<close>
    [8, 0, 9, 9, 0, 7, 7, 9, 6, 0, 3, 7, -1, -1, -1, -1],              \<comment> \<open>151: 0010 1110 1,2,3,5 (perp edges r : 2,5)\<close>
    [3, 1, 4, 4, 1, 10, 10, 4, 8, 1, 6, 10, -1, -1, -1, -1],           \<comment> \<open>152: 0110 0011 0,1,5,6 (perp edges r : 0,9)\<close>
    [0, 1, 8, 8, 1, 9, 2, 3, 10, 10, 3, 11, -1, -1, -1, -1],           \<comment> \<open>153: 1010 1010 1,3,5,7 (edges 5, 7 out)\<close>
    [1, 3, 6, 6, 3, 7, 4, 5, 9, 4, 9, 11, -1, -1, -1, -1],             \<comment> \<open>154: 0011 1100 2,3,4,5 (edges 2, 8 out)\<close>
    [0, 2, 5, 5, 2, 6, 4, 8, 7, 7, 8, 10, -1, -1, -1, -1],             \<comment> \<open>155: 1001 0110 1,2,4,7 (edges 1, 11 out)\<close>
    [1, 8, 5, 1, 2, 8, 8, 2, 11, 2, 11, 7, -1, -1, -1, -1],            \<comment> \<open>156: 1110 0100 6,5,2,7 (hexagon)\<close>
    [9, 4, 8, 9, 6, 4, 4, 6, 3, 6, 3, 2, -1, -1, -1, -1],              \<comment> \<open>157: 1101 1000 7,6,4,3 (hexagon)\<close>
    [3, 5, 0, 3, 7, 5, 5, 7, 9, 7, 9, 10, -1, -1, -1, -1],             \<comment> \<open>158: 0100 1110 2,1,3,6 (hexagon)\<close>
    [11, 6, 10, 11, 4, 6, 6, 4, 1, 4, 1, 0, -1, -1, -1, -1],           \<comment> \<open>159: 0111 0010 1,4,5,6 (hexagon)\<close>
    [4, 5, 7, 7, 5, 6, -1, -1, -1, -1, -1, -1, -1, -1, -1, -1],        \<comment> \<open>160: 1111 0000 4,5,6,7 (bisect out)\<close>
    [0, 2, 8, 8, 2, 10, -1, -1, -1, -1, -1, -1, -1, -1, -1, -1],       \<comment> \<open>161: 0110 0110 1,2,5,6 (bisect out)\<close>
    [1, 3, 9, 9, 3, 11, -1, -1, -1, -1, -1, -1, -1, -1, -1, -1],       \<comment> \<open>162: 1100 1100 2,3,6,7 (bisect out)\<close>
    [0, 3, 4, 1, 6, 2, 5, 8, 9, -1, -1, -1, -1, -1, -1, -1],           \<comment> \<open>163: 1101 1010 1,3,4,6,7 (3 tri out)\<close>
    [0, 5, 1, 6, 9, 10, 4, 11, 8, -1, -1, -1, -1, -1, -1, -1],         \<comment> \<open>164: 1010 1101 0,2,3,5,7 (3 tri out)\<close>
    [5, 8, 9, 7, 10, 11, 0, 3, 4, -1, -1, -1, -1, -1, -1, -1],         \<comment> \<open>165: 0101 1110 1,2,3,4,6 (3 tri out)\<close>
    [4, 11, 8, 2, 7, 3, 0, 5, 1, -1, -1, -1, -1, -1, -1, -1],          \<comment> \<open>166: 1110 0101 0,2,5,6,7 (3 tri out)\<close>
    [0, 3, 4, 1, 6, 2, 7, 10, 11, -1, -1, -1, -1, -1, -1, -1],         \<comment> \<open>167: 0111 1010 1,3,4,5,6 (3 tri out)\<close>
    [0, 5, 1, 6, 9, 10, 2, 7, 3, -1, -1, -1, -1, -1, -1, -1],          \<comment> \<open>168: 1011 0101 0,2,4,5,7 (3 tri out)\<close>
    [5, 8, 9, 7, 10, 11, 1, 6, 2, -1, -1, -1, -1, -1, -1, -1],         \<comment> \<open>169: 0101 1011 0,1,3,4,6 (3 tri out)\<close>
    [4, 11, 8, 2, 7, 3, 6, 9, 10, -1, -1, -1, -1, -1, -1, -1],         \<comment> \<open>170: 1010 0111 0,1,2,5,7 (3 tri out)\<close>
    [1, 3, 5, 5, 3, 4, 6, 9, 10, -1, -1, -1, -1, -1, -1, -1],          \<comment> \<open>171: 1011 1100 2,3,4,5,7 (edge 0 + 6 out)\<close>
    [1, 3, 5, 5, 3, 4, 7, 10, 11, -1, -1, -1, -1, -1, -1, -1],         \<comment> \<open>172: 0111 1100 2,3,4,5,6 (edge 0 + 7 out)\<close>
    [0, 5, 2, 2, 5, 6, 4, 11, 8, -1, -1, -1, -1, -1, -1, -1],          \<comment> \<open>173: 1110 1001 0,3,5,6,7 (edge 1 + 4 out)\<close>
    [0, 5, 2, 2, 5, 6, 7, 10, 11, -1, -1, -1, -1, -1, -1, -1],         \<comment> \<open>174: 0111 1001 0,3,4,5,6 (edge 1 + 7 out)\<close>
    [1, 6, 3, 3, 6, 7, 4, 11, 8, -1, -1, -1, -1, -1, -1, -1],          \<comment> \<open>175: 1110 0011 0,1,5,6,7 (edge 2 + 4 out)\<close>
    [1, 6, 3, 3, 6, 7, 5, 8, 9, -1, -1, -1, -1, -1, -1, -1],           \<comment> \<open>176: 1101 0011 0,1,4,6,7 (edge 2 + 5 out)\<close>
    [0, 2, 4, 4, 2, 7, 5, 8, 9, -1, -1, -1, -1, -1, -1, -1],           \<comment> \<open>177: 1101 0110 1,2,4,6,7 (edge 3 + 5 out)\<close>
    [0, 2, 4, 4, 2, 7, 6, 9, 10, -1, -1, -1, -1, -1, -1, -1],          \<comment> \<open>178: 1011 0110 1,2,4,5,7 (edge 3 + 6 out)\<close>
    [0, 3, 8, 8, 3, 11, 1, 6, 2, -1, -1, -1, -1, -1, -1, -1],          \<comment> \<open>179: 1110 1010 1,3,5,6,7 (edge 4 + 2 out)\<close>
    [0, 3, 8, 8, 3, 11, 6, 9, 10, -1, -1, -1, -1, -1, -1, -1],         \<comment> \<open>180: 1010 1110 1,2,3,5,7 (edge 4 + 6 out)\<close>
    [0, 8, 1, 1, 8, 9, 2, 7, 3, -1, -1, -1, -1, -1, -1, -1],           \<comment> \<open>181: 1101 0101 0,2,4,6,7 (edge 5 + 3 out)\<close>
    [0, 8, 1, 1, 8, 9, 5, 8, 9, -1, -1, -1, -1, -1, -1, -1],           \<comment> \<open>182: 0101 1101 0,2,3,4,6 (edge 5 + 7 out)\<close>
    [1, 9, 2, 2, 9, 10, 0, 3, 4, -1, -1, -1, -1, -1, -1, -1],          \<comment> \<open>183: 1011 1010 1,3,4,5,7 (edge 6 + 0 out)\<close>
    [1, 9, 2, 2, 9, 10, 4, 11, 8, -1, -1, -1, -1, -1, -1, -1],         \<comment> \<open>184: 1010 1011 0,1,3,5,7 (edge 6 + 4 out)\<close>
    [2, 10, 3, 3, 10, 11, 0, 5, 1, -1, -1, -1, -1, -1, -1, -1],        \<comment> \<open>185: 0111 0101 0,2,4,5,6 (edge 7 + 1 out)\<close>
    [2, 10, 3, 3, 10, 11, 5, 8, 9, -1, -1, -1, -1, -1, -1, -1],        \<comment> \<open>186: 0101 0111 0,1,2,4,6 (edge 7 + 5 out)\<close>
    [4, 11, 5, 5, 11, 9, 1, 6, 2, -1, -1, -1, -1, -1, -1, -1],         \<comment> \<open>187: 1100 1011 0,1,3,6,7 (edge 8 + 2 out)\<close>
    [4, 11, 5, 5, 11, 9, 2, 7, 3, -1, -1, -1, -1, -1, -1, -1],         \<comment> \<open>188: 1100 0111 0,1,2,6,7 (edge 8 + 3 out)\<close>
    [5, 8, 6, 6, 8, 10, 0, 3, 4, -1, -1, -1, -1, -1, -1, -1],          \<comment> \<open>189: 1001 1110 1,2,3,4,7 (edge 9 + 0 out)\<close>
    [5, 8, 6, 6, 8, 10, 2, 7, 3, -1, -1, -1, -1, -1, -1, -1],          \<comment> \<open>190: 1001 0111 0,1,2,4,7 (edge 9 + 3 out)\<close>
    [6, 9, 7, 7, 9, 11, 0, 3, 4, -1, -1, -1, -1, -1, -1, -1],          \<comment> \<open>191: 0011 1110 1,2,3,4,5 (edge 10 + 0 out)\<close>
    [6, 9, 7, 7, 9, 11, 0, 5, 1, -1, -1, -1, -1, -1, -1, -1],          \<comment> \<open>192: 0011 1101 0,2,3,4,5 (edge 10 + 1 out)\<close>
    [4, 7, 8, 8, 7, 10, 0, 5, 1, -1, -1, -1, -1, -1, -1, -1],          \<comment> \<open>193: 0110 1101 0,2,3,5,6 (edge 11 + 1 out)\<close>
    [4, 7, 8, 8, 7, 10, 1, 6, 2, -1, -1, -1, -1, -1, -1, -1],          \<comment> \<open>194: 0110 1011 0,1,3,5,6 (edge 11 + 2 out)\<close>
    [4, 5, 6, 4, 6, 3, 6, 2, 3, -1, -1, -1, -1, -1, -1, -1],           \<comment> \<open>195: 1111 1000 3,4,5,6,7 (3 on a face out)\<close>
    [5, 6, 7, 5, 7, 0, 7, 3, 0, -1, -1, -1, -1, -1, -1, -1],           \<comment> \<open>196: 1111 0001 0,4,5,6,7 (3 on a face out)\<close>
    [6, 7, 4, 6, 4, 1, 4, 0, 1, -1, -1, -1, -1, -1, -1, -1],           \<comment> \<open>197: 1111 0010 1,4,5,6,7 (3 on a face out)\<close>
    [7, 4, 5, 7, 5, 2, 5, 1, 2, -1, -1, -1, -1, -1, -1, -1],           \<comment> \<open>198: 1111 0100 2,4,5,6,7 (3 on a face out)\<close>
    [0, 8, 10, 0, 10, 1, 10, 6, 1, -1, -1, -1, -1, -1, -1, -1],        \<comment> \<open>199: 1001 1101 0,2,3,4,7 (3 on a face out)\<close>
    [8, 10, 2, 8, 2, 5, 2, 1, 5, -1, -1, -1, -1, -1, -1, -1],          \<comment> \<open>200: 1001 1011 0,1,3,4,7 (3 on a face out)\<close>
    [10, 2, 0, 10, 0, 9, 0, 5, 9, -1, -1, -1, -1, -1, -1, -1],         \<comment> \<open>201: 1011 1001 0,3,4,5,7 (3 on a face out)\<close>
    [2, 0, 8, 2, 8, 6, 8, 9, 6, -1, -1, -1, -1, -1, -1, -1],           \<comment> \<open>202: 1101 1001 0,3,4,6,7 (3 on a face out)\<close>
    [5, 4, 7, 5, 7, 9, 7, 10, 9, -1, -1, -1, -1, -1, -1, -1],          \<comment> \<open>203: 0100 1111 0,1,2,3,6 (3 on a face out)\<close>
    [4, 7, 6, 4, 6, 8, 6, 9, 8, -1, -1, -1, -1, -1, -1, -1],           \<comment> \<open>204: 0010 1111 0,1,2,3,5 (3 on a face out)\<close>
    [7, 6, 5, 7, 5, 11, 5, 8, 11, -1, -1, -1, -1, -1, -1, -1],         \<comment> \<open>205: 0001 1111 0,1,2,3,4 (3 on a face out)\<close>
    [6, 5, 4, 6, 4, 10, 4, 11, 10, -1, -1, -1, -1, -1, -1, -1],        \<comment> \<open>206: 1000 1111 0,1,2,3,7 (3 on a face out)\<close>
    [8, 0, 2, 8, 2, 11, 2, 7, 11, -1, -1, -1, -1, -1, -1, -1],         \<comment> \<open>207: 1110 0110 1,2,5,6,7 (3 on a face out)\<close>
    [0, 2, 10, 0, 10, 4, 10, 11, 4, -1, -1, -1, -1, -1, -1, -1],       \<comment> \<open>208: 0111 0110 1,2,4,5,6 (3 on a face out)\<close>
    [2, 10, 8, 2, 8, 3, 8, 4, 3, -1, -1, -1, -1, -1, -1, -1],          \<comment> \<open>209: 0110 0111 0,1,2,5,6 (3 on a face out)\<close>
    [10, 8, 0, 10, 0, 7, 0, 3, 7, -1, -1, -1, -1, -1, -1, -1],         \<comment> \<open>210: 0110 1110 1,2,3,5,6 (3 on a face out)\<close>
    [1, 9, 11, 1, 11, 2, 11, 7, 2, -1, -1, -1, -1, -1, -1, -1],        \<comment> \<open>211: 0011 1011 0,1,3,4,5 (3 on a face out)\<close>
    [9, 11, 3, 9, 3, 6, 3, 2, 6, -1, -1, -1, -1, -1, -1, -1],          \<comment> \<open>212: 0011 0111 0,1,2,4,5 (3 on a face out)\<close>
    [11, 3, 1, 11, 1, 10, 1, 6, 10, -1, -1, -1, -1, -1, -1, -1],       \<comment> \<open>213: 0111 0011 0,1,4,5,6 (3 on a face out)\<close>
    [3, 1, 9, 3, 9, 7, 9, 10, 7, -1, -1, -1, -1, -1, -1, -1],          \<comment> \<open>214: 1011 0011 0,1,4,5,7 (3 on a face out)\<close>
    [3, 11, 9, 3, 9, 0, 9, 5, 0, -1, -1, -1, -1, -1, -1, -1],          \<comment> \<open>215: 1100 1110 1,2,3,6,7 (3 on a face out)\<close>
    [11, 9, 1, 11, 1, 4, 1, 0, 4, -1, -1, -1, -1, -1, -1, -1],         \<comment> \<open>216: 1100 1101 0,2,3,6,7 (3 on a face out)\<close>
    [9, 1, 3, 9, 3, 8, 3, 4, 8, -1, -1, -1, -1, -1, -1, -1],           \<comment> \<open>217: 1101 1100 2,3,4,6,7 (3 on a face out)\<close>
    [1, 3, 11, 1, 11, 5, 11, 8, 5, -1, -1, -1, -1, -1, -1, -1],        \<comment> \<open>218: 1110 1100 2,3,5,6,7 (3 on a face out)\<close>
    [0, 3, 4, 6, 9, 10, -1, -1, -1, -1, -1, -1, -1, -1, -1, -1],       \<comment> \<open>219: 1011 1110 1,2,3,4,5,7 (2 diag tris out)\<close>
    [0, 5, 1, 7, 10, 11, -1, -1, -1, -1, -1, -1, -1, -1, -1, -1],      \<comment> \<open>220: 0111 1101 0,2,3,4,5,6 (2 diag tris out)\<close>
    [2, 7, 3, 5, 8, 9, -1, -1, -1, -1, -1, -1, -1, -1, -1, -1],        \<comment> \<open>221: 1101 0111 0,1,2,4,6,7 (2 diag tris out)\<close>
    [1, 6, 2, 4, 11, 8, -1, -1, -1, -1, -1, -1, -1, -1, -1, -1],       \<comment> \<open>222: 1110 1011 0,1,3,5,6,7 (2 diag tris out)\<close>
    [0, 3, 4, 1, 6, 2, -1, -1, -1, -1, -1, -1, -1, -1, -1, -1],        \<comment> \<open>223: 1111 1010 1,3,4,5,6,7 (2 tri out)\<close>
    [0, 3, 4, 5, 8, 9, -1, -1, -1, -1, -1, -1, -1, -1, -1, -1],        \<comment> \<open>224: 1101 1110 1,2,3,4,6,7 (2 tri out)\<close>
    [0, 3, 4, 7, 10, 11, -1, -1, -1, -1, -1, -1, -1, -1, -1, -1],      \<comment> \<open>225: 0111 1110 1,2,3,4,5,6 (2 tri out)\<close>
    [0, 5, 1, 2, 7, 3, -1, -1, -1, -1, -1, -1, -1, -1, -1, -1],        \<comment> \<open>226: 1111 0101 0,2,4,5,6,7 (2 tri out)\<close>
    [0, 5, 1, 4, 11, 8, -1, -1, -1, -1, -1, -1, -1, -1, -1, -1],       \<comment> \<open>227: 1110 1101 0,2,3,5,6,7 (2 tri out)\<close>
    [0, 5, 1, 6, 9, 10, -1, -1, -1, -1, -1, -1, -1, -1, -1, -1],       \<comment> \<open>228: 1011 1101 0,2,3,4,5,7 (2 tri out)\<close>
    [1, 6, 2, 5, 8, 9, -1, -1, -1, -1, -1, -1, -1, -1, -1, -1],        \<comment> \<open>229: 1101 1011 0,1,3,4,6,7 (2 tri out)\<close>
    [1, 6, 2, 7, 10, 11, -1, -1, -1, -1, -1, -1, -1, -1, -1, -1],      \<comment> \<open>230: 0111 1011 0,1,3,4,5,6 (2 tri out)\<close>
    [2, 7, 3, 4, 11, 8, -1, -1, -1, -1, -1, -1, -1, -1, -1, -1],       \<comment> \<open>231: 1110 0111 0,1,2,5,6,7 (2 tri out)\<close>
    [2, 7, 3, 6, 9, 10, -1, -1, -1, -1, -1, -1, -1, -1, -1, -1],       \<comment> \<open>232: 1011 0111 0,1,2,4,5,7 (2 tri out)\<close>
    [4, 11, 8, 6, 9, 10, -1, -1, -1, -1, -1, -1, -1, -1, -1, -1],      \<comment> \<open>233: 1010 1111 0,1,2,3,5,7 (2 tri out)\<close>
    [5, 8, 9, 7, 10, 11, -1, -1, -1, -1, -1, -1, -1, -1, -1, -1],      \<comment> \<open>234: 0101 1111 0,1,2,3,4,6 (2 tri out)\<close>
    [1, 3, 5, 5, 3, 4, -1, -1, -1, -1, -1, -1, -1, -1, -1, -1],        \<comment> \<open>235: 1111 1100 2,3,4,5,6,7 (edge 0 out)\<close>
    [0, 5, 2, 2, 5, 6, -1, -1, -1, -1, -1, -1, -1, -1, -1, -1],        \<comment> \<open>236: 1111 1001 0,3,4,5,6,7 (edge 1 out)\<close>
    [1, 6, 3, 3, 6, 7, -1, -1, -1, -1, -1, -1, -1, -1, -1, -1],        \<comment> \<open>237: 1111 0011 0,1,4,5,6,7 (edge 2 out)\<close>
    [0, 2, 4, 4, 2, 7, -1, -1, -1, -1, -1, -1, -1, -1, -1, -1],        \<comment> \<open>238: 1111 0110 1,2,4,5,6,7 (edge 3 out)\<close>
    [0, 3, 8, 8, 3, 11, -1, -1, -1, -1, -1, -1, -1, -1, -1, -1],       \<comment> \<open>239: 1110 1110 1,2,3,5,6,7 (edge 4 out)\<close>
    [0, 8, 1, 1, 8, 9, -1, -1, -1, -1, -1, -1, -1, -1, -1, -1],        \<comment> \<open>240: 1101 1101 0,2,3,4,6,7 (edge 5 out)\<close>
    [1, 9, 2, 2, 9, 10, -1, -1, -1, -1, -1, -1, -1, -1, -1, -1],       \<comment> \<open>241: 1011 1011 0,1,3,4,5,7 (edge 6 out)\<close>
    [2, 10, 3, 3, 10, 11, -1, -1, -1, -1, -1, -1, -1, -1, -1, -1],     \<comment> \<open>242: 0111 0111 0,1,2,4,5,6 (edge 7 out)\<close>
    [4, 11, 5, 5, 11, 9, -1, -1, -1, -1, -1, -1, -1, -1, -1, -1],      \<comment> \<open>243: 1100 1111 0,1,2,3,6,7 (edge 8 out)\<close>
    [5, 8, 6, 6, 8, 10, -1, -1, -1, -1, -1, -1, -1, -1, -1, -1],       \<comment> \<open>244: 1001 1111 0,1,2,3,4,7 (edge 9 out)\<close>
    [6, 9, 7, 7, 9, 11, -1, -1, -1, -1, -1, -1, -1, -1, -1, -1],       \<comment> \<open>245: 0011 1111 0,1,2,3,4,5 (edge 10 out)\<close>
    [4, 7, 8, 8, 7, 10, -1, -1, -1, -1, -1, -1, -1, -1, -1, -1],       \<comment> \<open>246: 0110 1111 0,1,2,3,5,6 (edge 11 out)\<close>
    [0, 3, 4, -1, -1, -1, -1, -1, -1, -1, -1, -1, -1, -1, -1, -1],     \<comment> \<open>247: 1111 1110 1,2,3,4,5,6,7 (vertex 0 out)\<close>
    [0, 5, 1, -1, -1, -1, -1, -1, -1, -1, -1, -1, -1, -1, -1, -1],     \<comment> \<open>248: 1111 1101 0,2,3,4,5,6,7 (vertex 1 out)\<close>
    [1, 6, 2, -1, -1, -1, -1, -1, -1, -1, -1, -1, -1, -1, -1, -1],     \<comment> \<open>249: 1111 1011 0,1,3,4,5,6,7 (vertex 2 out)\<close>
    [2, 7, 3, -1, -1, -1, -1, -1, -1, -1, -1, -1, -1, -1, -1, -1],     \<comment> \<open>250: 1111 0111 0,1,2,4,5,6,7 (vertex 3 out)\<close>
    [4, 11, 8, -1, -1, -1, -1, -1, -1, -1, -1, -1, -1, -1, -1, -1],    \<comment> \<open>251: 1110 1111 0,1,2,3,5,6,7 (vertex 4 out)\<close>
    [5, 8, 9, -1, -1, -1, -1, -1, -1, -1, -1, -1, -1, -1, -1, -1],     \<comment> \<open>252: 1101 1111 0,1,2,3,4,6,7 (vertex 5 out)\<close>
    [6, 9, 10, -1, -1, -1, -1, -1, -1, -1, -1, -1, -1, -1, -1, -1],    \<comment> \<open>253: 1011 1111 0,1,2,3,4,5,7 (vertex 6 out)\<close>
    [7, 10, 11, -1, -1, -1, -1, -1, -1, -1, -1, -1, -1, -1, -1, -1],   \<comment> \<open>254: 0111 1111 0,1,2,3,4,5,6 (vertex 7 out)\<close>
    [-1, -1, -1, -1, -1, -1, -1, -1, -1, -1, -1, -1, -1, -1, -1, -1]   \<comment> \<open>255: 1111 1111\<close>
  ]"

text \<open>
  The edge-to-corner table of the header comment:
  \<^verbatim>\<open>0: 0, 1   1: 1, 2   2: 2, 3   3: 3, 0   4: 0, 4   5: 1, 5\<close>
  \<^verbatim>\<open>6: 2, 6   7: 3, 7   8: 4, 5   9: 5, 6   A: 6, 7   B: 7, 4\<close>
\<close>

definition EDGE_CORNERS :: "(nat \<times> nat) list" where
  "EDGE_CORNERS =
     [(0, 1), (1, 2), (2, 3), (3, 0),
      (0, 4), (1, 5), (2, 6), (3, 7),
      (4, 5), (5, 6), (6, 7), (7, 4)]"

text \<open>
  The corner coordinates of the header comment, as offsets from \<open>(x, y, z)\<close>:
  \<^verbatim>\<open>0: ( x, y,   z   )  4: ( x+1, y,   z   )\<close>
  \<^verbatim>\<open>1: ( x, y,   z+1 )  5: ( x+1, y,   z+1 )\<close>
  \<^verbatim>\<open>2: ( x, y+1, z+1 )  6: ( x+1, y+1, z   )\<close>
  \<^verbatim>\<open>3: ( x, y+1, z   )  7: ( x+1, y+1, z+1 )\<close>
\<close>

definition CORNER_OFFSETS :: "(nat \<times> nat \<times> nat) list" where
  "CORNER_OFFSETS =
     [(0, 0, 0), (0, 0, 1), (0, 1, 1), (0, 1, 0),
      (1, 0, 0), (1, 0, 1), (1, 1, 0), (1, 1, 1)]"

subsection \<open>Shape of a row\<close>

text \<open>
  The number of entries of a row before its first negative entry, and the check that a
  row is whole triangles of edge indices followed by \<open>-1\<close> only.
\<close>

definition used_entries :: "int list \<Rightarrow> nat" where
  "used_entries row = length (takeWhile (\<lambda>x. 0 \<le> x) row)"

definition well_formed_row :: "int list \<Rightarrow> bool" where
  "well_formed_row row =
     (length row = 16 \<and> used_entries row mod 3 = 0 \<and> used_entries row \<le> 15 \<and>
      list_all (\<lambda>x. 0 \<le> x \<and> x \<le> 11) (take (used_entries row) row) \<and>
      list_all (\<lambda>x. x = -1) (drop (used_entries row) row))"

text \<open>
  The check that each of the five triangle slots of a row is either empty (its first
  entry is negative) or holds three pairwise distinct entries.
\<close>

definition distinct_triangles :: "int list \<Rightarrow> bool" where
  "distinct_triangles row =
     list_all (\<lambda>t. row ! (3 * t) < 0 \<or>
        distinct [row ! (3 * t), row ! (3 * t + 1), row ! (3 * t + 2)]) [0..<5]"

subsection \<open>Corners, edges and single-corner rows\<close>

text \<open>The edges that have corner \<open>b\<close> as an end point, after \<open>EDGE_CORNERS\<close>.\<close>

definition incident_edges :: "nat \<Rightarrow> nat list" where
  "incident_edges b =
     filter (\<lambda>e. fst (EDGE_CORNERS ! e) = b \<or> snd (EDGE_CORNERS ! e) = b) [0..<12]"


subsection \<open>Rows and the sign patterns written beside them\<close>

text \<open>
  The corner sign pattern the source writes beside each row of the table, in the order
  of the rows and read as a binary number (bit \<open>b\<close> for corner \<open>b\<close>): row 3, written
  \<^verbatim>\<open>0000 0100\<close>, has pattern 4.
\<close>

definition ROW_PATTERN :: "nat list" where
  "ROW_PATTERN =
     [
      0, 1, 2, 4, 8, 16, 32, 64, 128, 3, 6, 12, 9, 17, 34, 68,
      136, 48, 96, 192, 144, 5, 33, 129, 10, 18, 66, 36, 132, 24, 72, 80,
      160, 65, 130, 40, 20, 7, 14, 13, 11, 98, 100, 70, 38, 176, 208, 224,
      112, 25, 137, 152, 145, 196, 200, 140, 76, 49, 50, 35, 19, 67, 131, 21,
      69, 41, 73, 81, 97, 193, 22, 134, 138, 146, 42, 162, 194, 28, 44, 84,
      52, 148, 56, 104, 168, 37, 82, 161, 26, 133, 74, 164, 88, 15, 153, 51,
      27, 39, 177, 141, 195, 105, 85, 54, 43, 29, 142, 71, 147, 201, 108, 113,
      184, 212, 226, 135, 30, 45, 75, 106, 101, 86, 166, 180, 210, 225, 120, 89,
      169, 154, 149, 197, 202, 172, 92, 53, 58, 163, 83, 165, 90, 178, 209, 232,
      116, 57, 156, 198, 23, 139, 77, 46, 99, 170, 60, 150, 228, 216, 78, 114,
      240, 102, 204, 218, 173, 94, 229, 122, 181, 91, 167, 188, 124, 233, 121, 227,
      211, 214, 182, 234, 174, 213, 93, 186, 171, 117, 87, 203, 199, 158, 151, 62,
      61, 109, 107, 248, 241, 242, 244, 157, 155, 185, 217, 79, 47, 31, 143, 230,
      118, 103, 110, 59, 55, 115, 179, 206, 205, 220, 236, 190, 125, 215, 235, 250,
      222, 126, 245, 237, 189, 219, 123, 231, 183, 175, 95, 252, 249, 243, 246, 238,
      221, 187, 119, 207, 159, 63, 111, 254, 253, 251, 247, 239, 223, 191, 127, 255
     ]"


text \<open>
  Corner \<open>b\<close> is inside under the sign pattern \<open>mc\<close> when bit \<open>b\<close> of \<open>mc\<close> is set;
  an edge is cut when exactly one of its two end corners is inside.
\<close>

definition corner_inside :: "nat \<Rightarrow> nat \<Rightarrow> bool" where
  "corner_inside mc b = odd (mc div 2 ^ b)"

definition cut_edges :: "nat \<Rightarrow> nat list" where
  "cut_edges mc =
     filter (\<lambda>e. corner_inside mc (fst (EDGE_CORNERS ! e)) \<noteq>
                 corner_inside mc (snd (EDGE_CORNERS ! e))) [0..<12]"

text \<open>
  The edge indices a row uses, and the test that they are exactly the edges cut under
  a sign pattern: every triangle vertex of the row lies on a cut edge and every cut
  edge carries a vertex.
\<close>

definition row_edges :: "int list \<Rightarrow> int list" where
  "row_edges row = take (used_entries row) row"

definition row_fits_pattern :: "int list \<Rightarrow> nat \<Rightarrow> bool" where
  "row_fits_pattern row mc = (set (row_edges row) = set (map int (cut_edges mc)))"

subsection \<open>Corner positions\<close>

text \<open>
  The distance of two corners along each axis, and the test that an edge joins two
  corners that differ in exactly one axis, by exactly one, for a given list of corner
  positions.
\<close>

fun axis_differences :: "nat \<times> nat \<times> nat \<Rightarrow> nat \<times> nat \<times> nat \<Rightarrow> nat list" where
  "axis_differences (x, y, z) (x', y', z') =
     [if x \<le> x' then x' - x else x - x',
      if y \<le> y' then y' - y else y - y',
      if z \<le> z' then z' - z else z - z']"

definition is_cube_edge :: "(nat \<times> nat \<times> nat) list \<Rightarrow> nat \<Rightarrow> bool" where
  "is_cube_edge offsets e =
     (let d = axis_differences (offsets ! fst (EDGE_CORNERS ! e))
                               (offsets ! snd (EDGE_CORNERS ! e))
      in filter (\<lambda>n. n \<noteq> 0) d = [1])"

text \<open>
  The corner positions as the cube figure of the same header comment draws them: the
  corners 0, 1, 2, 3 on the left (\<open>x\<close>) and 4, 5, 6, 7 on the right (\<open>x+1\<close>); 0, 1, 4, 5
  at the bottom (\<open>y\<close>) and 2, 3, 6, 7 at the top (\<open>y+1\<close>); 0, 3, 4, 7 at the back
  (\<open>z\<close>) and 1, 2, 5, 6 at the front (\<open>z+1\<close>).
\<close>

definition CORNER_FIGURE :: "(nat \<times> nat \<times> nat) list" where
  "CORNER_FIGURE =
     [(0, 0, 0), (0, 0, 1), (0, 1, 1), (0, 1, 0),
      (1, 0, 0), (1, 0, 1), (1, 1, 1), (1, 1, 0)]"

section \<open>The raycaster's image dimensions\<close>

text \<open>
  \<^verbatim>\<open>class Raycaster\<close> keeps \<^verbatim>\<open>uint16_t m_width, m_height\<close>; its constructor
  \<^verbatim>\<open>Raycaster(int width=640, int height=480)\<close> assigns the \<^verbatim>\<open>int\<close> arguments
  to them. \<^verbatim>\<open>int\<close> is taken as 32 bits wide, read as two's complement by
  \<^const>\<open>sint\<close>; the assignment to \<^verbatim>\<open>uint16_t\<close> keeps the low 16 bits
  (\<^const>\<open>ucast\<close>). An argument left out of the call is \<^const>\<open>None\<close> and takes
  the declared default.
\<close>

record Raycaster =
  m_width :: "16 word"
  m_height :: "16 word"

definition Raycaster_ctor :: "32 word option \<Rightarrow> 32 word option \<Rightarrow> Raycaster" where
  "Raycaster_ctor width height =
     \<lparr>m_width = ucast (case width of None \<Rightarrow> 640 | Some w \<Rightarrow> w),
      m_height = ucast (case height of None \<Rightarrow> 480 | Some h \<Rightarrow> h)\<rparr>"

section \<open>The voxel grid\<close>

text \<open>
  The volume class (\<^verbatim>\<open>TSDFVolume.hpp\<close>, included by the test and by
  \<^verbatim>\<open>Raycaster.hpp\<close>) is not among the sources, so the grid, its integrator, its
  marching-cubes pass and its serialiser are modelled from the specification. A
  single-precision float is kept as its IEEE-754 bit pattern; only tests against zero
  are interpreted, every other float operation is a parameter of the model.
\<close>

type_synonym f32 = "32 word"
type_synonym byte = "8 word"

text \<open>
  Modelled from the spec: IEEE-754 single precision (sign bit 31, exponent bits 30 to
  23, fraction bits 22 to 0); the float type of the missing volume class. The value is
  \<open>+0\<close> or \<open>-0\<close> when the low 31 bits are zero.
\<close>

definition f32_is_zero :: "f32 \<Rightarrow> bool" where
  "f32_is_zero x = (take_bit 31 x = 0)"

text \<open>
  Modelled from the spec: IEEE-754 single precision, the missing float type. A NaN has
  all exponent bits set and a fraction that is not zero.
\<close>

definition f32_is_nan :: "f32 \<Rightarrow> bool" where
  "f32_is_nan x = (0x7F800000 < take_bit 31 x)"

text \<open>
  Modelled from the spec: IEEE-754 single precision, the missing float type. The
  comparison \<open>x < 0\<close>: the sign bit is set and \<open>x\<close> is neither a zero nor a NaN.
\<close>

definition f32_is_negative :: "f32 \<Rightarrow> bool" where
  "f32_is_negative x = (bit x 31 \<and> \<not> f32_is_zero x \<and> \<not> f32_is_nan x)"

text \<open>
  Modelled from the spec: IEEE-754 single precision, the missing float type. The
  comparison \<open>x \<le> 0\<close>, false for a NaN.
\<close>

definition f32_le_zero :: "f32 \<Rightarrow> bool" where
  "f32_le_zero x = (f32_is_zero x \<or> f32_is_negative x)"

text \<open>
  Modelled from the spec: the error kinds of section 7, raised by the missing volume
  class.
\<close>

datatype error = invalid_argument | io_error | precondition_violation

text \<open>
  Modelled from the spec: the Voxel of section 3 (the missing volume class's element):
  a float distance and a float weight; weight zero means unseen.
\<close>

record voxel =
  distance :: f32
  weight :: f32

text \<open>
  Modelled from the spec: the VoxelGrid of section 3 with the fields of the grid blob
  of section 6 (the missing \<^verbatim>\<open>TSDFVolume\<close>): dims as unsigned 32-bit integers,
  physical size, origin, truncation distance, maximum weight, and the flat voxel
  storage in x-fastest order. The voxel sizes are derived and not stored.
\<close>

record voxel_grid =
  nx :: "32 word"
  ny :: "32 word"
  nz :: "32 word"
  sx :: f32
  sy :: f32
  sz :: f32
  ox :: f32
  oy :: f32
  oz :: f32
  trunc :: f32
  w_max :: f32
  voxels :: "voxel list"

text \<open>
  Modelled from the spec: the invariant "storage length equals nx * ny * nz" of the
  missing \<^verbatim>\<open>TSDFVolume\<close>.
\<close>

definition storage_ok :: "voxel_grid \<Rightarrow> bool" where
  "storage_ok g = (length (voxels g) = unat (nx g) * unat (ny g) * unat (nz g))"

text \<open>
  Modelled from the spec: \<open>at(i, j, k)\<close> of the missing \<^verbatim>\<open>TSDFVolume\<close>, with the
  storage order \<open>index = i + nx * (j + ny * k)\<close>; an access out of bounds is the
  precondition violation, here \<^const>\<open>None\<close>.
\<close>

definition at :: "voxel_grid \<Rightarrow> nat \<Rightarrow> nat \<Rightarrow> nat \<Rightarrow> voxel option" where
  "at g i j k =
     (if i < unat (nx g) \<and> j < unat (ny g) \<and> k < unat (nz g) \<and>
         i + unat (nx g) * (j + unat (ny g) * k) < length (voxels g)
      then Some (voxels g ! (i + unat (nx g) * (j + unat (ny g) * k)))
      else None)"

subsection \<open>Serialiser\<close>

text \<open>
  Modelled from the spec: the little-endian encoding of a 32-bit field of the grid blob
  (the serialiser of the missing \<^verbatim>\<open>TSDFVolume\<close>).
\<close>

definition le32 :: "32 word \<Rightarrow> byte list" where
  "le32 w = [ucast w, ucast (drop_bit 8 w), ucast (drop_bit 16 w), ucast (drop_bit 24 w)]"

text \<open>
  Modelled from the spec: reading a little-endian 32-bit field, the inverse of
  \<open>le32\<close>, from the first four bytes (the reader of the missing \<^verbatim>\<open>TSDFVolume\<close>).
\<close>

fun rd32 :: "byte list \<Rightarrow> 32 word" where
  "rd32 (b0 # b1 # b2 # b3 # rest) =
     ucast b0 OR push_bit 8 (ucast b1) OR push_bit 16 (ucast b2) OR push_bit 24 (ucast b3)"
| "rd32 _ = 0"

text \<open>Modelled from the spec: the magic bytes \<^verbatim>\<open>"TSDF"\<close> of the grid blob.\<close>

definition MAGIC :: "byte list" where
  "MAGIC = [0x54, 0x53, 0x44, 0x46]"

text \<open>Modelled from the spec: the version byte of the grid blob, currently 1.\<close>

definition VERSION :: byte where
  "VERSION = 1"

text \<open>
  Modelled from the spec: one voxel record of the grid blob, float32 distance then
  float32 weight.
\<close>

definition save_voxel :: "voxel \<Rightarrow> byte list" where
  "save_voxel v = le32 (distance v) @ le32 (weight v)"

text \<open>
  Modelled from the spec: writing the grid blob of section 6 (\<^verbatim>\<open>save_to_file\<close> of the
  missing \<^verbatim>\<open>TSDFVolume\<close>): magic, version, three dims, three sizes, three origin
  coordinates, \<open>trunc\<close>, \<open>w_max\<close>, then the voxel records in storage order.
\<close>

definition save :: "voxel_grid \<Rightarrow> byte list" where
  "save g =
     MAGIC @ [VERSION] @
     le32 (nx g) @ le32 (ny g) @ le32 (nz g) @
     le32 (sx g) @ le32 (sy g) @ le32 (sz g) @
     le32 (ox g) @ le32 (oy g) @ le32 (oz g) @
     le32 (trunc g) @ le32 (w_max g) @
     concat (map save_voxel (voxels g))"

text \<open>
  Modelled from the spec: reading \<open>n\<close> voxel records of eight bytes each (the reader of
  the missing \<^verbatim>\<open>TSDFVolume\<close>).
\<close>

fun load_voxels :: "nat \<Rightarrow> byte list \<Rightarrow> voxel list" where
  "load_voxels 0 bs = []"
| "load_voxels (Suc n) bs =
     \<lparr>distance = rd32 bs, weight = rd32 (drop 4 bs)\<rparr> # load_voxels n (drop 8 bs)"

text \<open>
  Modelled from the spec: reading the grid blob, "the exact inverse" of writing, with
  an \<open>io_error\<close> on truncation (a header shorter than 49 bytes, or fewer than
  \<open>nx * ny * nz\<close> voxel records) or magic mismatch.
\<close>

definition load :: "byte list \<Rightarrow> error + voxel_grid" where
  "load bs =
     (if length bs < 49 then Inl io_error
      else if take 4 bs \<noteq> MAGIC then Inl io_error
      else
        let dx = rd32 (drop 5 bs); dy = rd32 (drop 9 bs); dz = rd32 (drop 13 bs);
            n = unat dx * unat dy * unat dz;
            body = drop 49 bs
        in if length body < 8 * n then Inl io_error
           else Inr \<lparr>nx = dx, ny = dy, nz = dz,
                     sx = rd32 (drop 17 bs), sy = rd32 (drop 21 bs), sz = rd32 (drop 25 bs),
                     ox = rd32 (drop 29 bs), oy = rd32 (drop 33 bs), oz = rd32 (drop 37 bs),
                     trunc = rd32 (drop 41 bs), w_max = rd32 (drop 45 bs),
                     voxels = load_voxels n body\<rparr>)"

subsection \<open>Integrator\<close>

text \<open>
  Modelled from the spec: steps a and b of the integrator (the world centre of a voxel
  and its projection to a pixel \<open>(u, v)\<close> and a camera-space depth \<open>z_cam\<close>) are float
  arithmetic of the missing \<^verbatim>\<open>Camera\<close> and \<^verbatim>\<open>TSDFVolume\<close>; they are a parameter
  of this type.
\<close>

type_synonym projection = "voxel_grid \<Rightarrow> nat \<times> nat \<times> nat \<Rightarrow> int \<times> int \<times> f32"

text \<open>
  Modelled from the spec: steps d to g of the integrator (signed distance, truncation
  band, clamping and the weighted running average of the missing
  \<^verbatim>\<open>TSDFVolume::integrate\<close>) are float arithmetic; they are a parameter of this type,
  which takes the voxel, the measured depth and \<open>z_cam\<close> and gives the new voxel, or
  \<^const>\<open>None\<close> when the voxel is skipped.
\<close>

type_synonym fusion = "voxel_grid \<Rightarrow> voxel \<Rightarrow> 16 word \<Rightarrow> f32 \<Rightarrow> voxel option"

text \<open>
  Modelled from the spec: the voxel \<open>(i, j, k)\<close> stored at an index of the missing
  \<^verbatim>\<open>TSDFVolume\<close>, the inverse of \<open>index = i + nx * (j + ny * k)\<close>.
\<close>

definition voxel_coords :: "voxel_grid \<Rightarrow> nat \<Rightarrow> nat \<times> nat \<times> nat" where
  "voxel_coords g idx =
     (idx mod unat (nx g), (idx div unat (nx g)) mod unat (ny g),
      idx div (unat (nx g) * unat (ny g)))"

text \<open>
  Modelled from the spec: the per-voxel step of the missing \<^verbatim>\<open>TSDFVolume::integrate\<close>
  (section 4.3, steps a to g). The voxel is skipped when \<open>z_cam \<le> 0\<close>, when the pixel
  is outside the image, or when the measured depth \<open>depth[v, u]\<close> (row-major) is 0.
\<close>

definition integrate_voxel ::
  "projection \<Rightarrow> fusion \<Rightarrow> voxel_grid \<Rightarrow> 16 word list \<Rightarrow> nat \<Rightarrow> nat \<Rightarrow> nat \<Rightarrow> voxel" where
  "integrate_voxel project fuse g depth width height idx =
     (let vox = voxels g ! idx in
      case project g (voxel_coords g idx) of (u, v, z_cam) \<Rightarrow>
        if f32_le_zero z_cam \<or> u < 0 \<or> int width \<le> u \<or> v < 0 \<or> int height \<le> v then vox
        else
          let d_meas = depth ! (nat v * width + nat u)
          in if d_meas = 0 then vox
             else (case fuse g vox d_meas z_cam of None \<Rightarrow> vox | Some vox' \<Rightarrow> vox'))"

text \<open>
  Modelled from the spec: \<open>integrate(grid, depth, width, height, camera)\<close> of the
  missing \<^verbatim>\<open>TSDFVolume\<close>. A depth image whose length disagrees with
  \<open>width * height\<close> is the fatal precondition violation; otherwise every voxel is
  stepped once, from its own old value, in storage order.
\<close>

definition integrate ::
  "projection \<Rightarrow> fusion \<Rightarrow> voxel_grid \<Rightarrow> 16 word list \<Rightarrow> nat \<Rightarrow> nat \<Rightarrow> error + voxel_grid" where
  "integrate project fuse g depth width height =
     (if length depth \<noteq> width * height then Inl precondition_violation
      else Inr (g\<lparr>voxels :=
                  map (integrate_voxel project fuse g depth width height)
                      [0..<length (voxels g)]\<rparr>))"

subsection \<open>Marching-cubes extractor\<close>

text \<open>
  Modelled from the spec: step 1 of the missing extractor (section 4.5), the eight
  corner voxels of the cube at \<open>(i, j, k)\<close> in the corner order of the source's
  \<open>CORNER_OFFSETS\<close>; \<^const>\<open>None\<close> when a corner is out of bounds.
\<close>

definition gather :: "voxel_grid \<Rightarrow> nat \<times> nat \<times> nat \<Rightarrow> voxel list option" where
  "gather g p =
     (case p of (i, j, k) \<Rightarrow>
        those (map (\<lambda>(dx, dy, dz). at g (i + dx) (j + dy) (k + dz)) CORNER_OFFSETS))"

text \<open>
  Modelled from the spec: step 2 of the missing extractor, the 8-bit index with bit
  \<open>b\<close> set iff the distance of corner \<open>b\<close> is negative.
\<close>

definition cube_index :: "voxel list \<Rightarrow> nat" where
  "cube_index cs =
     sum_list (map (\<lambda>b. if f32_is_negative (distance (cs ! b)) then 2 ^ b else 0) [0..<8])"

text \<open>
  Modelled from the spec: reading a row of the triangle table in step 3 of the missing
  extractor, three edge indices at a time up to the terminator \<open>-1\<close>.
\<close>

fun row_triangles :: "int list \<Rightarrow> (int \<times> int \<times> int) list" where
  "row_triangles (a # b # c # rest) =
     (if a = -1 then [] else (a, b, c) # row_triangles rest)"
| "row_triangles _ = []"

text \<open>
  Modelled from the spec: steps 2 to 6 of the missing extractor for one cube. A cube
  with a corner of weight 0 is skipped; otherwise the row \<open>TRIANGLE_TABLE[mc]\<close> of the
  source's table is read. Steps 4 to 6 (vertex interpolation, normals, winding) are
  float arithmetic and are the parameter \<open>emit\<close>, which makes a triangle from the cube
  position, its corners and three edge indices.
\<close>

definition process_cube ::
  "(nat \<times> nat \<times> nat \<Rightarrow> voxel list \<Rightarrow> int \<times> int \<times> int \<Rightarrow> 'tri) \<Rightarrow>
   nat \<times> nat \<times> nat \<Rightarrow> voxel list \<Rightarrow> 'tri list" where
  "process_cube emit p cs =
     (if list_ex (\<lambda>c. f32_is_zero (weight c)) cs then []
      else map (emit p cs) (row_triangles (TRIANGLE_TABLE ! cube_index cs)))"

text \<open>
  Modelled from the spec: the cubes the missing extractor visits, \<open>i < nx - 1\<close>,
  \<open>j < ny - 1\<close>, \<open>k < nz - 1\<close>, x fastest.
\<close>

definition cube_positions :: "voxel_grid \<Rightarrow> (nat \<times> nat \<times> nat) list" where
  "cube_positions g =
     concat (map (\<lambda>k. concat (map (\<lambda>j. map (\<lambda>i. (i, j, k)) [0..<unat (nx g) - 1])
                                 [0..<unat (ny g) - 1]))
                 [0..<unat (nz g) - 1])"

text \<open>
  Modelled from the spec: the loop of the missing extractor over a list of cubes; the
  triangles of all cubes are concatenated, and a corner access out of bounds is the
  precondition violation.
\<close>

fun extract_cubes ::
  "(nat \<times> nat \<times> nat \<Rightarrow> voxel list \<Rightarrow> int \<times> int \<times> int \<Rightarrow> 'tri) \<Rightarrow>
   voxel_grid \<Rightarrow> (nat \<times> nat \<times> nat) list \<Rightarrow> error + 'tri list" where
  "extract_cubes emit g [] = Inr []"
| "extract_cubes emit g (p # ps) =
     (case gather g p of
        None \<Rightarrow> Inl precondition_violation
      | Some cs \<Rightarrow>
          (case extract_cubes emit g ps of
             Inl e \<Rightarrow> Inl e
           | Inr ts \<Rightarrow> Inr (process_cube emit p cs @ ts)))"

text \<open>Modelled from the spec: \<open>extract(grid)\<close> of the missing extractor.\<close>

definition extract_triangles ::
  "(nat \<times> nat \<times> nat \<Rightarrow> voxel list \<Rightarrow> int \<times> int \<times> int \<Rightarrow> 'tri) \<Rightarrow>
   voxel_grid \<Rightarrow> error + 'tri list" where
  "extract_triangles emit g = extract_cubes emit g (cube_positions g)"

section \<open>Sample inputs\<close>

text \<open>
  Small grids and voxels on which the models are run. The floats are \<open>0.5\<close>
  (\<open>0x3F000000\<close>), \<open>1.0\<close> (\<open>0x3F800000\<close>), \<open>-1.0\<close> (\<open>0xBF800000\<close>), \<open>2.0\<close>
  (\<open>0x40000000\<close>), \<open>50.0\<close>, \<open>100.0\<close>, \<open>-100.0\<close>, \<open>1000.0\<close> and \<open>2000.0\<close>.
\<close>

definition sample_grid :: voxel_grid where
  "sample_grid =
     \<lparr>nx = 2, ny = 1, nz = 1, sx = 0x44FA0000, sy = 0x447A0000, sz = 0x447A0000,
      ox = 0, oy = 0, oz = 0xC2C80000, trunc = 0x42480000, w_max = 0x42C80000,
      voxels = [\<lparr>distance = 0x3F000000, weight = 0x3F800000\<rparr>,
                \<lparr>distance = 0xBF800000, weight = 0\<rparr>]\<rparr>"

definition unseen_grid :: voxel_grid where
  "unseen_grid =
     \<lparr>nx = 2, ny = 2, nz = 2, sx = 0x447A0000, sy = 0x447A0000, sz = 0x447A0000,
      ox = 0, oy = 0, oz = 0, trunc = 0x42480000, w_max = 0x42C80000,
      voxels = replicate 8 \<lparr>distance = 0xBF800000, weight = 0\<rparr>\<rparr>"

definition inside_voxel :: voxel where
  "inside_voxel = \<lparr>distance = 0xBF800000, weight = 0x3F800000\<rparr>"

definition outside_voxel :: voxel where
  "outside_voxel = \<lparr>distance = 0x3F800000, weight = 0x3F800000\<rparr>"

definition unseen_voxel :: voxel where
  "unseen_voxel = \<lparr>distance = 0xBF800000, weight = 0\<rparr>"

section \<open>Properties of the triangle table\<close>

lemma length_TRIANGLE_TABLE: "length TRIANGLE_TABLE = 256"
  by (simp add: TRIANGLE_TABLE_def)

lemma TRIANGLE_TABLE_well_formed: "list_all well_formed_row TRIANGLE_TABLE"
  by (simp add: TRIANGLE_TABLE_def well_formed_row_def used_entries_def)

lemma TRIANGLE_TABLE_distinct_triangles: "list_all distinct_triangles TRIANGLE_TABLE"
  by (simp add: TRIANGLE_TABLE_def distinct_triangles_def upt_rec)

lemma incident_edges_values:
  "map incident_edges [0..<8] =
     [[0, 3, 4], [0, 1, 5], [1, 2, 6], [2, 3, 7],
      [4, 8, 11], [5, 8, 9], [6, 9, 10], [7, 10, 11]]"
  by (simp add: incident_edges_def EDGE_CORNERS_def upt_rec)


lemma well_formed_row_shape:
  assumes "well_formed_row row"
  shows "length row = 16"
    and "\<exists>t\<le>5. (\<forall>x\<in>set (take (3 * t) row). 0 \<le> x \<and> x \<le> 11) \<and>
                (\<forall>x\<in>set (drop (3 * t) row). x = -1)"
    and "last row = -1"
proof -
  let ?n = "used_entries row"
  from assms have len: "length row = 16" and m3: "?n mod 3 = 0" and le: "?n \<le> 15"
    and pre: "list_all (\<lambda>x. 0 \<le> x \<and> x \<le> 11) (take ?n row)"
    and post: "list_all (\<lambda>x. x = -1) (drop ?n row)"
    by (simp_all add: well_formed_row_def)
  show "length row = 16" by (rule len)
  from m3 have n3: "3 * (?n div 3) = ?n" by presburger
  from le have "?n div 3 \<le> 5" by simp
  moreover from pre n3 have "\<forall>x\<in>set (take (3 * (?n div 3)) row). 0 \<le> x \<and> x \<le> 11"
    by (simp add: list_all_iff)
  moreover from post n3 have "\<forall>x\<in>set (drop (3 * (?n div 3)) row). x = -1"
    by (simp add: list_all_iff)
  ultimately show "\<exists>t\<le>5. (\<forall>x\<in>set (take (3 * t) row). 0 \<le> x \<and> x \<le> 11) \<and>
                (\<forall>x\<in>set (drop (3 * t) row). x = -1)"
    by blast
  from len le have ne: "drop ?n row \<noteq> []" by simp
  then have "last row = last (drop ?n row)" by (simp add: last_drop)
  also from ne have "\<dots> \<in> set (drop ?n row)" by (rule last_in_set)
  finally show "last row = -1" using post by (simp add: list_all_iff)
qed

text \<open>
  C7. The table has 256 rows of 16 entries. Every row is \<open>3 * t\<close> edge indices in
  the range \<open>0 .. 11\<close> for some \<open>t \<le> 5\<close> (whole triangles), followed by entries
  \<open>-1\<close> only; so the last entry of every row is the terminator \<open>-1\<close>.
\<close>

theorem triangle_table_row_shape:
  assumes "row \<in> set TRIANGLE_TABLE"
  shows "length TRIANGLE_TABLE = 256 \<and> length row = 16 \<and>
         (\<exists>t\<le>5. (\<forall>x\<in>set (take (3 * t) row). 0 \<le> x \<and> x \<le> 11) \<and>
                 (\<forall>x\<in>set (drop (3 * t) row). x = -1)) \<and>
         last row = -1"
proof -
  from assms TRIANGLE_TABLE_well_formed have "well_formed_row row"
    by (simp add: list_all_iff)
  from well_formed_row_shape [OF this] length_TRIANGLE_TABLE show ?thesis
    by simp
qed

theorem triangle_table_row_shape_witness:
  "TRIANGLE_TABLE ! 96 = [1, 7, 2, 1, 5, 7, 7, 5, 11, 5, 11, 8, -1, -1, -1, -1] \<and>
   TRIANGLE_TABLE ! 96 \<in> set TRIANGLE_TABLE \<and>
   length TRIANGLE_TABLE = 256 \<and> length (TRIANGLE_TABLE ! 96) = 16 \<and>
   (\<exists>t\<le>5. (\<forall>x\<in>set (take (3 * t) (TRIANGLE_TABLE ! 96)). 0 \<le> x \<and> x \<le> 11) \<and>
           (\<forall>x\<in>set (drop (3 * t) (TRIANGLE_TABLE ! 96)). x = -1)) \<and>
   last (TRIANGLE_TABLE ! 96) = -1"
proof -
  have row: "TRIANGLE_TABLE ! 96 = [1, 7, 2, 1, 5, 7, 7, 5, 11, 5, 11, 8, -1, -1, -1, -1]"
    by (simp add: TRIANGLE_TABLE_def)
  have mem: "TRIANGLE_TABLE ! 96 \<in> set TRIANGLE_TABLE"
    by (rule nth_mem) (simp add: length_TRIANGLE_TABLE)
  from triangle_table_row_shape [OF mem] row mem show ?thesis
    by simp
qed

text \<open>
  C10. In every row, every triangle (a triple of entries at positions \<open>3 * t\<close>,
  \<open>3 * t + 1\<close>, \<open>3 * t + 2\<close> that is present, that is, starts with an entry that
  is not negative) has three pairwise distinct edge indices.
\<close>

theorem triangle_table_no_degenerate_triangle:
  assumes "row \<in> set TRIANGLE_TABLE" and "t < 5" and "0 \<le> row ! (3 * t)"
  shows "distinct [row ! (3 * t), row ! (3 * t + 1), row ! (3 * t + 2)]"
proof -
  from assms(1) TRIANGLE_TABLE_distinct_triangles have "distinct_triangles row"
    by (simp add: list_all_iff)
  with assms(2) have "row ! (3 * t) < 0 \<or>
      distinct [row ! (3 * t), row ! (3 * t + 1), row ! (3 * t + 2)]"
    by (simp add: distinct_triangles_def list_all_iff)
  with assms(3) show ?thesis by linarith
qed

theorem triangle_table_no_degenerate_triangle_witness:
  "TRIANGLE_TABLE ! 96 \<in> set TRIANGLE_TABLE \<and> (3::nat) < 5 \<and>
   0 \<le> TRIANGLE_TABLE ! 96 ! (3 * 3) \<and>
   [TRIANGLE_TABLE ! 96 ! (3 * 3), TRIANGLE_TABLE ! 96 ! (3 * 3 + 1),
    TRIANGLE_TABLE ! 96 ! (3 * 3 + 2)] = [5, 11, 8] \<and>
   distinct [TRIANGLE_TABLE ! 96 ! (3 * 3), TRIANGLE_TABLE ! 96 ! (3 * 3 + 1),
             TRIANGLE_TABLE ! 96 ! (3 * 3 + 2)]"
proof -
  have row: "TRIANGLE_TABLE ! 96 = [1, 7, 2, 1, 5, 7, 7, 5, 11, 5, 11, 8, -1, -1, -1, -1]"
    by (simp add: TRIANGLE_TABLE_def)
  have mem: "TRIANGLE_TABLE ! 96 \<in> set TRIANGLE_TABLE"
    by (rule nth_mem) (simp add: length_TRIANGLE_TABLE)
  have lt: "(3::nat) < 5" by simp
  have present: "0 \<le> TRIANGLE_TABLE ! 96 ! (3 * 3)" by (simp add: row)
  from triangle_table_no_degenerate_triangle [OF mem lt present] mem row show ?thesis
    by simp
qed

subsection \<open>Rows and sign patterns\<close>

lemma edge_indices: "[0..<12] = [0, 1, 2, 3, 4, 5, 6, 7, 8, 9, 10, 11]"
  by (simp add: upt_rec)

lemma cut_edges_unfolded:
  "cut_edges mc =
     (if corner_inside mc 0 \<noteq> corner_inside mc 1 then [0] else []) @
     (if corner_inside mc 1 \<noteq> corner_inside mc 2 then [1] else []) @
     (if corner_inside mc 2 \<noteq> corner_inside mc 3 then [2] else []) @
     (if corner_inside mc 3 \<noteq> corner_inside mc 0 then [3] else []) @
     (if corner_inside mc 0 \<noteq> corner_inside mc 4 then [4] else []) @
     (if corner_inside mc 1 \<noteq> corner_inside mc 5 then [5] else []) @
     (if corner_inside mc 2 \<noteq> corner_inside mc 6 then [6] else []) @
     (if corner_inside mc 3 \<noteq> corner_inside mc 7 then [7] else []) @
     (if corner_inside mc 4 \<noteq> corner_inside mc 5 then [8] else []) @
     (if corner_inside mc 5 \<noteq> corner_inside mc 6 then [9] else []) @
     (if corner_inside mc 6 \<noteq> corner_inside mc 7 then [10] else []) @
     (if corner_inside mc 7 \<noteq> corner_inside mc 4 then [11] else [])"
  by (simp add: cut_edges_def edge_indices EDGE_CORNERS_def)











text \<open>
  The four rows left out above use edges other than the cut edges of the pattern
  written beside them: row 75 (pattern 162) and row 182 (pattern 93) repeat the
  triangle \<open>5, 9, 8\<close> of corner 5 where corner 7's edges \<open>7, 11, 10\<close> are cut, row 139
  (pattern 165) starts with edge 9 where edge 0 is cut, and row 144 (pattern 116) ends
  a triangle on edge 7 where edge 11 is cut.
\<close>

lemma rows_off_pattern:
  "ROW_PATTERN ! 75 = 162" "\<not> row_fits_pattern (TRIANGLE_TABLE ! 75) 162"
  "ROW_PATTERN ! 139 = 165" "\<not> row_fits_pattern (TRIANGLE_TABLE ! 139) 165"
  "ROW_PATTERN ! 144 = 116" "\<not> row_fits_pattern (TRIANGLE_TABLE ! 144) 116"
  "ROW_PATTERN ! 182 = 93" "\<not> row_fits_pattern (TRIANGLE_TABLE ! 182) 93"
  by (simp_all add: TRIANGLE_TABLE_def ROW_PATTERN_def row_fits_pattern_def row_edges_def
      used_entries_def cut_edges_unfolded corner_inside_def set_eq_subset)




section \<open>Properties of the corner and edge numbering\<close>

text \<open>
  With the corner positions of the figure, all twelve edges join neighbouring corners.
  The coordinate list of the comment differs from the figure in the corners 6 and 7
  only, whose \<open>z\<close> coordinates are exchanged.
\<close>

lemma figure_edges_are_cube_edges: "list_all (is_cube_edge CORNER_FIGURE) [0..<12]"
  by (simp add: is_cube_edge_def EDGE_CORNERS_def CORNER_FIGURE_def upt_rec)

lemma corner_list_differs_from_figure:
  "filter (\<lambda>b. CORNER_OFFSETS ! b \<noteq> CORNER_FIGURE ! b) [0..<8] = [6, 7]"
  by (simp add: CORNER_OFFSETS_def CORNER_FIGURE_def upt_rec)

text \<open>
  C2 at the numbering of the header comment. Corner 2 is \<open>(x, y+1, z+1)\<close> and corner 6
  is \<open>(x+1, y+1, z)\<close>, which differ in two axes, so edge 6 joins two corners that are
  not neighbours; the same holds of the edges 7, 9 and 11, each of which ends in
  corner 6 or corner 7. The other eight edges join corners that differ in exactly one
  axis by one.
\<close>

theorem edge_numbering_not_all_cube_edges:
  "EDGE_CORNERS ! 6 = (2, 6) \<and>
   CORNER_OFFSETS ! 2 = (0, 1, 1) \<and> CORNER_OFFSETS ! 6 = (1, 1, 0) \<and>
   axis_differences (CORNER_OFFSETS ! 2) (CORNER_OFFSETS ! 6) = [1, 0, 1] \<and>
   \<not> is_cube_edge CORNER_OFFSETS 6 \<and>
   filter (is_cube_edge CORNER_OFFSETS) [0..<12] = [0, 1, 2, 3, 4, 5, 8, 10]"
  by (simp add: is_cube_edge_def EDGE_CORNERS_def CORNER_OFFSETS_def upt_rec)

section \<open>Properties of the raycaster's constructor\<close>

lemma uint_ucast_32_16: "uint (ucast (w :: 32 word) :: 16 word) = sint w mod 2 ^ 16"
proof -
  have "uint (ucast w :: 16 word) = take_bit 16 (uint w)"
    by (simp add: unsigned_ucast_eq)
  also have "\<dots> = take_bit 16 (sint w)"
    by (simp add: sint_uint take_bit_signed_take_bit)
  finally show ?thesis
    by (simp add: take_bit_eq_mod)
qed

text \<open>
  C9. The stored width and height are the \<^verbatim>\<open>int\<close> arguments reduced modulo
  \<open>2 ^ 16\<close>; a width of 65536 is stored as 0; with no arguments the stored dimensions
  are 640 and 480.
\<close>

theorem Raycaster_ctor_dimensions:
  "uint (m_width (Raycaster_ctor (Some w) (Some h))) = sint w mod 2 ^ 16 \<and>
   uint (m_height (Raycaster_ctor (Some w) (Some h))) = sint h mod 2 ^ 16 \<and>
   m_width (Raycaster_ctor (Some 65536) (Some h)) = 0 \<and>
   Raycaster_ctor None None = \<lparr>m_width = 640, m_height = 480\<rparr>"
  by (simp add: Raycaster_ctor_def uint_ucast_32_16)

section \<open>Properties of the serialiser\<close>

lemma length_le32: "length (le32 w) = 4"
  by (simp add: le32_def)

lemma rd32_le32: "rd32 (le32 w @ rest) = w"
proof -
  have "ucast (ucast w :: byte) OR push_bit 8 (ucast (ucast (drop_bit 8 w) :: byte)) OR
        push_bit 16 (ucast (ucast (drop_bit 16 w) :: byte)) OR
        push_bit 24 (ucast (ucast (drop_bit 24 w) :: byte)) = w"
  proof (rule bit_word_eqI)
    fix n :: nat
    assume "n < LENGTH(32)"
    then consider "n < 8" | "8 \<le> n" "n < 16" | "16 \<le> n" "n < 24" | "24 \<le> n" "n < 32"
      by fastforce
    then show "bit (ucast (ucast w :: byte) OR push_bit 8 (ucast (ucast (drop_bit 8 w) :: byte)) OR
        push_bit 16 (ucast (ucast (drop_bit 16 w) :: byte)) OR
        push_bit 24 (ucast (ucast (drop_bit 24 w) :: byte)) :: 32 word) n = bit w n"
      by cases (auto simp add: bit_simps)
  qed
  then show ?thesis
    by (simp add: le32_def)
qed

lemma length_save_voxel: "length (save_voxel v) = 8"
  by (simp add: save_voxel_def length_le32)

lemma rd32_save_voxel_distance: "rd32 (save_voxel v @ rest) = distance v"
  using rd32_le32 [of "distance v" "le32 (weight v) @ rest"] by (simp add: save_voxel_def)

lemma rd32_save_voxel_weight: "rd32 (drop 4 (save_voxel v) @ rest) = weight v"
  using rd32_le32 [of "weight v" rest] by (simp add: save_voxel_def length_le32)

lemma load_voxels_save: "load_voxels (length vs) (concat (map save_voxel vs) @ rest) = vs"
proof (induction vs)
  case Nil
  show ?case by simp
next
  case (Cons v vs)
  then show ?case
    by (simp add: length_save_voxel rd32_save_voxel_distance rd32_save_voxel_weight)
qed

lemma length_save_voxels: "length (concat (map save_voxel vs)) = 8 * length vs"
  by (induction vs) (simp_all add: length_save_voxel)

text \<open>
  C4. For every voxel grid \<open>g\<close> (one whose storage holds \<open>nx * ny * nz\<close> voxels, the
  invariant of the data model), reading the blob written for \<open>g\<close> succeeds and gives
  \<open>g\<close> again, every field and every voxel with the same bits.
\<close>

theorem load_save:
  assumes "storage_ok g"
  shows "load (save g) = Inr g"
proof -
  let ?body = "concat (map save_voxel (voxels g))"
  note defs = save_def MAGIC_def length_le32 rd32_le32
  have len: "length (save g) = 49 + 8 * length (voxels g)"
    by (simp add: defs length_save_voxels)
  have magic: "take 4 (save g) = MAGIC"
    by (simp add: defs)
  have body: "drop 49 (save g) = ?body"
    by (simp add: defs)
  have f: "rd32 (drop 5 (save g)) = nx g" "rd32 (drop 9 (save g)) = ny g"
    "rd32 (drop 13 (save g)) = nz g" "rd32 (drop 17 (save g)) = sx g"
    "rd32 (drop 21 (save g)) = sy g" "rd32 (drop 25 (save g)) = sz g"
    "rd32 (drop 29 (save g)) = ox g" "rd32 (drop 33 (save g)) = oy g"
    "rd32 (drop 37 (save g)) = oz g" "rd32 (drop 41 (save g)) = trunc g"
    "rd32 (drop 45 (save g)) = w_max g"
    by (simp_all add: defs)
  from assms have n: "unat (nx g) * unat (ny g) * unat (nz g) = length (voxels g)"
    by (simp add: storage_ok_def)
  have vs: "load_voxels (length (voxels g)) ?body = voxels g"
    using load_voxels_save [of "voxels g" "[]"] by simp
  have "load (save g) = Inr \<lparr>nx = nx g, ny = ny g, nz = nz g, sx = sx g, sy = sy g, sz = sz g,
      ox = ox g, oy = oy g, oz = oz g, trunc = trunc g, w_max = w_max g, voxels = voxels g\<rparr>"
    unfolding load_def by (simp add: len magic body f n vs length_save_voxels Let_def)
  then show ?thesis by simp
qed

theorem load_save_witness:
  "storage_ok sample_grid \<and> load (save sample_grid) = Inr sample_grid \<and>
   take 9 (save sample_grid) = [0x54, 0x53, 0x44, 0x46, 1, 2, 0, 0, 0] \<and>
   length (save sample_grid) = 65"
proof -
  have ok: "storage_ok sample_grid"
    by (simp add: storage_ok_def sample_grid_def)
  have bytes: "take 9 (save sample_grid) = [0x54, 0x53, 0x44, 0x46, 1, 2, 0, 0, 0]"
    by (simp add: save_def sample_grid_def MAGIC_def VERSION_def le32_def)
  have len: "length (save sample_grid) = 65"
    by (simp add: save_def sample_grid_def MAGIC_def length_le32 length_save_voxel)
  from load_save [OF ok] ok bytes len show ?thesis by simp
qed

section \<open>Properties of the integrator\<close>

lemma pixel_index_in_image:
  assumes "0 \<le> u" "u < int width" "0 \<le> v" "v < int height"
  shows "nat v * width + nat u < width * height"
proof -
  from assms have u: "nat u < width" and v: "Suc (nat v) \<le> height" by simp_all
  from u have "nat v * width + nat u < Suc (nat v) * width" by simp
  also from v have "Suc (nat v) * width \<le> height * width" by (rule mult_le_mono1)
  finally show ?thesis by (simp add: mult.commute)
qed

lemma integrate_voxel_blank:
  assumes "length depth = width * height" and "\<forall>p\<in>set depth. p = 0"
  shows "integrate_voxel project fuse g depth width height idx = voxels g ! idx"
proof (cases "project g (voxel_coords g idx)")
  case (fields u v z_cam)
  show ?thesis
  proof (cases "f32_le_zero z_cam \<or> u < 0 \<or> int width \<le> u \<or> v < 0 \<or> int height \<le> v")
    case True
    with fields show ?thesis by (simp add: integrate_voxel_def)
  next
    case False
    then have "nat v * width + nat u < length depth"
      using pixel_index_in_image [of u width v height] assms(1) by simp
    then have "depth ! (nat v * width + nat u) \<in> set depth" by (rule nth_mem)
    with assms(2) have "depth ! (nat v * width + nat u) = 0" by blast
    with fields False show ?thesis by (simp add: integrate_voxel_def)
  qed
qed

text \<open>
  C6. An integrate call whose depth image has the passed dimensions never fails, and
  when every pixel of the image is 0 the grid it returns is the grid it was given.
\<close>

theorem integrate_blank_frame:
  assumes "length depth = width * height"
  shows "(\<exists>g'. integrate project fuse g depth width height = Inr g') \<and>
         ((\<forall>p\<in>set depth. p = 0) \<longrightarrow> integrate project fuse g depth width height = Inr g)"
proof
  from assms show "\<exists>g'. integrate project fuse g depth width height = Inr g'"
    by (simp add: integrate_def)
  show "(\<forall>p\<in>set depth. p = 0) \<longrightarrow> integrate project fuse g depth width height = Inr g"
  proof
    assume blank: "\<forall>p\<in>set depth. p = 0"
    have "map (integrate_voxel project fuse g depth width height) [0..<length (voxels g)] =
          map ((!) (voxels g)) [0..<length (voxels g)]"
      by (rule map_cong) (simp_all add: integrate_voxel_blank [OF assms blank])
    then have "map (integrate_voxel project fuse g depth width height) [0..<length (voxels g)] =
          voxels g"
      by (simp add: map_nth)
    with assms show "integrate project fuse g depth width height = Inr g"
      by (simp add: integrate_def)
  qed
qed

theorem integrate_blank_frame_witness:
  "length [0, 0, 0, 0 :: 16 word] = 2 * 2 \<and>
   integrate (\<lambda>g p. (1, 0, 0x3F800000)) (\<lambda>g vox d z. Some (vox\<lparr>weight := 0x40000000\<rparr>))
     sample_grid [0, 0, 0, 0] 2 2 = Inr sample_grid \<and>
   integrate (\<lambda>g p. (1, 0, 0x3F800000)) (\<lambda>g vox d z. Some (vox\<lparr>weight := 0x40000000\<rparr>))
     sample_grid [0, 7, 0, 0] 2 2 =
     Inr (sample_grid\<lparr>voxels := [\<lparr>distance = 0x3F000000, weight = 0x40000000\<rparr>,
                                  \<lparr>distance = 0xBF800000, weight = 0x40000000\<rparr>]\<rparr>)"
proof -
  have len: "length [0, 0, 0, 0 :: 16 word] = 2 * 2" by simp
  have lit: "integrate (\<lambda>g p. (1, 0, 0x3F800000)) (\<lambda>g vox d z. Some (vox\<lparr>weight := 0x40000000\<rparr>))
     sample_grid [0, 7, 0, 0] 2 2 =
     Inr (sample_grid\<lparr>voxels := [\<lparr>distance = 0x3F000000, weight = 0x40000000\<rparr>,
                                  \<lparr>distance = 0xBF800000, weight = 0x40000000\<rparr>]\<rparr>)"
    by (simp add: integrate_def integrate_voxel_def sample_grid_def voxel_coords_def
        f32_le_zero_def f32_is_zero_def f32_is_negative_def upt_rec)
  from integrate_blank_frame [OF len, of "\<lambda>g p. (1, 0, 0x3F800000)"
      "\<lambda>g vox d z. Some (vox\<lparr>weight := 0x40000000\<rparr>)" sample_grid] lit
  show ?thesis by simp
qed

section \<open>Properties of the marching-cubes extractor\<close>

lemma f32_tests:
  "f32_is_negative 0xBF800000" "\<not> f32_is_negative 0x3F800000" "f32_is_zero 0"
  "\<not> f32_is_zero 0x3F800000" "\<not> f32_is_negative 0x80000000" "f32_is_zero 0x80000000"
  "\<not> f32_is_negative 0xFFC00000"
  by (simp_all add: f32_is_negative_def f32_is_zero_def f32_is_nan_def)

lemma storage_index_bound:
  fixes i j k a b c :: nat
  assumes "i < a" "j < b" "k < c"
  shows "i + a * (j + b * k) < a * b * c"
proof -
  from assms(2) have "j + b * k < b * Suc k" by simp
  also from assms(3) have "b * Suc k \<le> b * c" by (intro mult_le_mono2) simp
  finally have "Suc (j + b * k) \<le> b * c" by simp
  then have "a * Suc (j + b * k) \<le> a * (b * c)" by (rule mult_le_mono2)
  moreover from assms(1) have "i + a * (j + b * k) < a * Suc (j + b * k)" by simp
  ultimately show ?thesis by (simp add: mult.assoc)
qed

lemma at_in_bounds:
  assumes "storage_ok g" "i < unat (nx g)" "j < unat (ny g)" "k < unat (nz g)"
  shows "\<exists>v \<in> set (voxels g). at g i j k = Some v"
proof -
  from assms have "i + unat (nx g) * (j + unat (ny g) * k) < length (voxels g)"
    by (simp add: storage_ok_def storage_index_bound)
  with assms show ?thesis by (simp add: at_def)
qed

lemma cube_positions_bounds:
  assumes "(i, j, k) \<in> set (cube_positions g)"
  shows "Suc i < unat (nx g)" "Suc j < unat (ny g)" "Suc k < unat (nz g)"
  using assms by (auto simp: cube_positions_def)

lemma gather_in_grid:
  assumes "storage_ok g" "p \<in> set (cube_positions g)"
  shows "\<exists>cs. gather g p = Some cs \<and> cs \<noteq> [] \<and> set cs \<subseteq> set (voxels g)"
proof -
  obtain i j k where p: "p = (i, j, k)" by (cases p)
  from assms(2) p have b: "Suc i < unat (nx g)" "Suc j < unat (ny g)" "Suc k < unat (nz g)"
    by (simp_all add: cube_positions_bounds)
  then have b0: "i < unat (nx g)" "j < unat (ny g)" "k < unat (nz g)" by simp_all
  note A = at_in_bounds [OF assms(1)]
  from A [OF b0(1) b0(2) b0(3)] obtain v0 where v0: "v0 \<in> set (voxels g)" "at g i j k = Some v0" by blast
  from A [OF b0(1) b0(2) b(3)] obtain v1 where v1: "v1 \<in> set (voxels g)" "at g i j (Suc k) = Some v1" by blast
  from A [OF b0(1) b(2) b(3)] obtain v2 where v2: "v2 \<in> set (voxels g)" "at g i (Suc j) (Suc k) = Some v2" by blast
  from A [OF b0(1) b(2) b0(3)] obtain v3 where v3: "v3 \<in> set (voxels g)" "at g i (Suc j) k = Some v3" by blast
  from A [OF b(1) b0(2) b0(3)] obtain v4 where v4: "v4 \<in> set (voxels g)" "at g (Suc i) j k = Some v4" by blast
  from A [OF b(1) b0(2) b(3)] obtain v5 where v5: "v5 \<in> set (voxels g)" "at g (Suc i) j (Suc k) = Some v5" by blast
  from A [OF b(1) b(2) b0(3)] obtain v6 where v6: "v6 \<in> set (voxels g)" "at g (Suc i) (Suc j) k = Some v6" by blast
  from A [OF b(1) b(2) b(3)] obtain v7 where v7: "v7 \<in> set (voxels g)" "at g (Suc i) (Suc j) (Suc k) = Some v7" by blast
  have "gather g p = Some [v0, v1, v2, v3, v4, v5, v6, v7]"
    by (simp add: gather_def p CORNER_OFFSETS_def v0 v1 v2 v3 v4 v5 v6 v7)
  with v0 v1 v2 v3 v4 v5 v6 v7 show ?thesis by simp
qed

lemma process_cube_unseen:
  assumes "\<exists>c\<in>set cs. f32_is_zero (weight c)"
  shows "process_cube emit p cs = []"
  using assms by (simp add: process_cube_def list_ex_iff)

lemma extract_cubes_unseen:
  assumes "storage_ok g" "\<forall>v\<in>set (voxels g). f32_is_zero (weight v)"
    and "set ps \<subseteq> set (cube_positions g)"
  shows "extract_cubes emit g ps = Inr []"
  using assms(3)
proof (induction ps)
  case Nil
  show ?case by simp
next
  case (Cons p ps)
  then have "p \<in> set (cube_positions g)" by simp
  from gather_in_grid [OF assms(1) this] obtain cs
    where cs: "gather g p = Some cs" "cs \<noteq> []" "set cs \<subseteq> set (voxels g)" by blast
  from cs(2) obtain c where "c \<in> set cs" by (cases cs) auto
  with cs(3) assms(2) have "\<exists>c\<in>set cs. f32_is_zero (weight c)" by blast
  then have "process_cube emit p cs = []" by (rule process_cube_unseen)
  with Cons cs(1) show ?case by simp
qed

lemma cube_index_all_inside:
  assumes "length cs = 8" "\<forall>c\<in>set cs. f32_is_negative (distance c)"
  shows "cube_index cs = 255"
proof -
  from assms have "f32_is_negative (distance (cs ! b))" if "b < 8" for b
    using that by simp
  then show ?thesis by (simp add: cube_index_def upt_rec)
qed

lemma cube_index_all_outside:
  assumes "length cs = 8" "\<forall>c\<in>set cs. \<not> f32_is_negative (distance c)"
  shows "cube_index cs = 0"
proof -
  from assms have "\<not> f32_is_negative (distance (cs ! b))" if "b < 8" for b
    using that by simp
  then show ?thesis by (simp add: cube_index_def upt_rec)
qed

lemma no_triangles_rows:
  "TRIANGLE_TABLE ! 0 = [-1, -1, -1, -1, -1, -1, -1, -1, -1, -1, -1, -1, -1, -1, -1, -1]"
  "TRIANGLE_TABLE ! 255 = [-1, -1, -1, -1, -1, -1, -1, -1, -1, -1, -1, -1, -1, -1, -1, -1]"
  by (simp_all add: TRIANGLE_TABLE_def)

lemma process_cube_corner_0:
  "process_cube (\<lambda>p cs t. t) (0, 0, 0) (inside_voxel # replicate 7 outside_voxel) = [(0, 4, 3)]"
  by (simp add: process_cube_def cube_index_def inside_voxel_def outside_voxel_def
      f32_tests upt_rec TRIANGLE_TABLE_def numeral_eq_Suc)


text \<open>
  C8. Rows 0 and 255 of the table hold no triangle, so a cube with no corner inside
  (pattern 0) or every corner inside (pattern 255) gives the empty list of triangles;
  a cube with a corner of weight 0 is skipped, and on a grid all of whose voxels are
  unseen the extractor returns no triangle and no error.
\<close>

theorem no_triangles_uniform_or_unseen:
  "TRIANGLE_TABLE ! 0 = [-1, -1, -1, -1, -1, -1, -1, -1, -1, -1, -1, -1, -1, -1, -1, -1] \<and>
   TRIANGLE_TABLE ! 255 = [-1, -1, -1, -1, -1, -1, -1, -1, -1, -1, -1, -1, -1, -1, -1, -1] \<and>
   (length cs = 8 \<and> ((\<forall>c\<in>set cs. \<not> f32_is_negative (distance c)) \<or>
                      (\<forall>c\<in>set cs. f32_is_negative (distance c)))
      \<longrightarrow> process_cube emit p cs = []) \<and>
   ((\<exists>c\<in>set cs. f32_is_zero (weight c)) \<longrightarrow> process_cube emit p cs = []) \<and>
   (storage_ok g \<and> (\<forall>v\<in>set (voxels g). f32_is_zero (weight v))
      \<longrightarrow> extract_triangles emit g = Inr [])"
proof (intro conjI impI)
  show "TRIANGLE_TABLE ! 0 = [-1, -1, -1, -1, -1, -1, -1, -1, -1, -1, -1, -1, -1, -1, -1, -1]"
    and "TRIANGLE_TABLE ! 255 = [-1, -1, -1, -1, -1, -1, -1, -1, -1, -1, -1, -1, -1, -1, -1, -1]"
    by (rule no_triangles_rows)+
next
  assume a: "length cs = 8 \<and> ((\<forall>c\<in>set cs. \<not> f32_is_negative (distance c)) \<or>
                      (\<forall>c\<in>set cs. f32_is_negative (distance c)))"
  then have "cube_index cs = 0 \<or> cube_index cs = 255"
    using cube_index_all_inside cube_index_all_outside by blast
  then have "row_triangles (TRIANGLE_TABLE ! cube_index cs) = []"
    by (auto simp: no_triangles_rows)
  then show "process_cube emit p cs = []"
    by (simp add: process_cube_def)
next
  assume "\<exists>c\<in>set cs. f32_is_zero (weight c)"
  then show "process_cube emit p cs = []" by (rule process_cube_unseen)
next
  assume "storage_ok g \<and> (\<forall>v\<in>set (voxels g). f32_is_zero (weight v))"
  then show "extract_triangles emit g = Inr []"
    by (simp add: extract_triangles_def extract_cubes_unseen)
qed

theorem no_triangles_uniform_or_unseen_witness:
  "length (replicate 8 inside_voxel) = 8 \<and>
   list_all (\<lambda>c. f32_is_negative (distance c)) (replicate 8 inside_voxel) \<and>
   process_cube (\<lambda>p cs t. t) (0, 0, 0) (replicate 8 inside_voxel) = [] \<and>
   list_all (\<lambda>c. \<not> f32_is_negative (distance c)) (replicate 8 outside_voxel) \<and>
   process_cube (\<lambda>p cs t. t) (0, 0, 0) (replicate 8 outside_voxel) = [] \<and>
   list_ex (\<lambda>c. f32_is_zero (weight c)) (inside_voxel # unseen_voxel # replicate 6 outside_voxel) \<and>
   process_cube (\<lambda>p cs t. t) (0, 0, 0) (inside_voxel # unseen_voxel # replicate 6 outside_voxel) = [] \<and>
   storage_ok unseen_grid \<and>
   list_all (\<lambda>v. f32_is_zero (weight v)) (voxels unseen_grid) \<and>
   extract_triangles (\<lambda>p cs t. t) unseen_grid = Inr []"
proof -
  let ?emit = "\<lambda>(p :: nat \<times> nat \<times> nat) (cs :: voxel list) (t :: int \<times> int \<times> int). t"
  let ?mixed = "inside_voxel # unseen_voxel # replicate 6 outside_voxel"
  have inside: "length (replicate 8 inside_voxel) = 8"
      "list_all (\<lambda>c. f32_is_negative (distance c)) (replicate 8 inside_voxel)"
    by (simp_all add: list_all_iff inside_voxel_def f32_tests)
  have outside: "length (replicate 8 outside_voxel) = 8"
      "list_all (\<lambda>c. \<not> f32_is_negative (distance c)) (replicate 8 outside_voxel)"
    by (simp_all add: list_all_iff outside_voxel_def f32_tests)
  have mixed: "list_ex (\<lambda>c. f32_is_zero (weight c)) ?mixed"
    by (simp add: unseen_voxel_def f32_tests)
  have grid: "storage_ok unseen_grid"
      "list_all (\<lambda>v. f32_is_zero (weight v)) (voxels unseen_grid)"
    by (simp_all add: storage_ok_def unseen_grid_def list_all_iff f32_tests)
  from inside(2) have inside': "\<forall>c\<in>set (replicate 8 inside_voxel). f32_is_negative (distance c)"
    by (simp only: list_all_iff)
  from outside(2)
  have outside': "\<forall>c\<in>set (replicate 8 outside_voxel). \<not> f32_is_negative (distance c)"
    by (simp only: list_all_iff)
  from mixed have mixed': "\<exists>c\<in>set ?mixed. f32_is_zero (weight c)"
    by (simp only: list_ex_iff)
  from grid(2) have grid': "\<forall>v\<in>set (voxels unseen_grid). f32_is_zero (weight v)"
    by (simp only: list_all_iff)
  from no_triangles_uniform_or_unseen [of "replicate 8 inside_voxel" ?emit "(0, 0, 0)" unseen_grid]
    inside(1) inside' grid(1) grid'
  have a: "process_cube ?emit (0, 0, 0) (replicate 8 inside_voxel) = []"
    and d: "extract_triangles ?emit unseen_grid = Inr []"
    by blast+
  from no_triangles_uniform_or_unseen [of "replicate 8 outside_voxel" ?emit "(0, 0, 0)" unseen_grid]
    outside(1) outside'
  have b: "process_cube ?emit (0, 0, 0) (replicate 8 outside_voxel) = []"
    by blast
  from no_triangles_uniform_or_unseen [of ?mixed ?emit "(0, 0, 0)" unseen_grid] mixed'
  have c: "process_cube ?emit (0, 0, 0) ?mixed = []"
    by blast
  from inside outside mixed grid a b c d show ?thesis by simp
qed

end
